theory Spec2Isabelle
  imports Main "HOL-Library.Word"
begin

section \<open>Data model of \<open>robotservice.cpp\<close>\<close>

text \<open>
  A C++ \<open>char\<close> is an 8-bit word; a \<open>QByteArray\<close> holding the command message is a list of
  such bytes. An \<open>int\<close> index is a mathematical integer, and the conversion to \<open>char\<close>
  (\<open>static_cast<char>\<close>, or passing an \<open>int\<close> where a \<open>const char &\<close> is expected) keeps
  the low eight bits. Where a \<open>char\<close> is compared or promoted back to \<open>int\<close> it is read as a
  signed value (\<open>sint\<close>), as on the x86 targets of Qt. The one \<open>int\<close> addition that can
  leave the 32-bit range, \<open>qMax(0, index) + 21\<close> for an index within 21 of the largest
  \<open>int\<close>, is converted to \<open>char\<close> at once, and wrapping it around first would leave the same
  low eight bits.
\<close>

type_synonym byte = "8 word"
type_synonym QByteArray = "byte list"
type_synonym QBluetoothUuid = nat
type_synonym QLowEnergyService = nat

definition s_serviceUuid :: QBluetoothUuid where
  "s_serviceUuid = 0xfff3"

definition s_notifyUuid :: QBluetoothUuid where
  "s_notifyUuid = 0xfff4"

definition s_writeUuid :: QBluetoothUuid where
  "s_writeUuid = 0xfff5"

text \<open>\<open>QByteArrayLiteral("X\x11\x40\x40\x00\x00")\<close>: six bytes, \<open>'X'\<close> is 0x58.\<close>

definition s_pauseMessage :: QByteArray where
  "s_pauseMessage = [0x58, 0x11, 0x40, 0x40, 0x00, 0x00]"

datatype State = DisconnectedState | ConnectingState | ConnectedState

text \<open>
  A \<open>QLowEnergyCharacteristic\<close> is either default-constructed (invalid) or names a
  characteristic of the peripheral by its UUID and attribute handle.
\<close>

datatype QLowEnergyCharacteristic = InvalidCharacteristic | Characteristic QBluetoothUuid nat

fun isValid :: "QLowEnergyCharacteristic \<Rightarrow> bool" where
  "isValid InvalidCharacteristic = False"
| "isValid (Characteristic u h) = True"

fun uuid :: "QLowEnergyCharacteristic \<Rightarrow> QBluetoothUuid option" where
  "uuid InvalidCharacteristic = None"
| "uuid (Characteristic u h) = Some u"

datatype ServiceState = InvalidService | DiscoveryRequired | DiscoveringServices | ServiceDiscovered

text \<open>
  Everything the object does to the outside world is appended to a log: the signals it
  emits, the writes it hands to the robot-control service and the discovery it requests.
\<close>

datatype effect =
    currentMessageChanged QByteArray
  | currentSoundChanged int
  | stateChanged State State
  | writeCharacteristic QLowEnergyCharacteristic QByteArray
  | writeDescriptor
  | discoverDetails QLowEnergyService

record MessageFragment =
  offset :: int
  val :: byte

text \<open>The default constructor and \<open>explicit operator bool\<close> of \<open>MessageFragment\<close>.\<close>

definition no_fragment :: MessageFragment where
  "no_fragment = \<lparr>offset = -1, val = 0\<rparr>"

definition fragment_bool :: "MessageFragment \<Rightarrow> bool" where
  "fragment_bool f = (offset f \<ge> 0 \<and> offset f < 6)"

text \<open>
  The members of \<open>RobotService::Private\<close>. \<open>m_emitter\<close> records whether the \<open>QTimer\<close> is
  running; \<open>effects\<close> is the log.
\<close>

record Private =
  m_oldState :: State
  m_deviceInformation :: "QLowEnergyService option"
  m_robotControl :: "QLowEnergyService option"
  m_writeCharacteristic :: QLowEnergyCharacteristic
  m_firmwareRevision :: int
  m_currentSound :: int
  m_pendingMessageCount :: int
  m_message :: QByteArray
  m_audioLoop :: bool
  m_emitter :: bool
  effects :: "effect list"

definition initial :: Private where
  "initial = \<lparr>m_oldState = DisconnectedState, m_deviceInformation = None,
     m_robotControl = None, m_writeCharacteristic = InvalidCharacteristic,
     m_firmwareRevision = -1, m_currentSound = 0, m_pendingMessageCount = 0,
     m_message = s_pauseMessage, m_audioLoop = False, m_emitter = False, effects = []\<rparr>"

definition emit :: "effect \<Rightarrow> Private \<Rightarrow> Private" where
  "emit e d = d\<lparr>effects := effects d @ [e]\<rparr>"

section \<open>Message codec\<close>

definition static_cast_char :: "int \<Rightarrow> byte" where
  "static_cast_char i = word_of_int i"

text \<open>The value of an \<open>int\<close> once converted to \<open>char\<close>, promoted back to \<open>int\<close>.\<close>

definition as_char :: "int \<Rightarrow> int" where
  "as_char i = sint (static_cast_char i)"

text \<open>Qt's \<open>qMin\<close>, \<open>qMax\<close> and \<open>qBound(min, val, max) = qMax(min, qMin(max, val))\<close>.\<close>

definition qMin :: "int \<Rightarrow> int \<Rightarrow> int" where
  "qMin a b = (if a < b then a else b)"

definition qMax :: "int \<Rightarrow> int \<Rightarrow> int" where
  "qMax a b = (if a < b then b else a)"

definition qBound :: "int \<Rightarrow> int \<Rightarrow> int \<Rightarrow> int" where
  "qBound lo v hi = qMax lo (qMin hi v)"

text \<open>
  \<open>qBound<char>(min, val, max)\<close>: the template argument is given, so all three arguments
  are converted to \<open>char\<close> before they are compared.
\<close>

definition qBound_char :: "int \<Rightarrow> int \<Rightarrow> int \<Rightarrow> int" where
  "qBound_char lo v hi = qBound (as_char lo) (as_char v) (as_char hi)"

definition fragmentForAction :: "Private \<Rightarrow> char \<Rightarrow> int \<Rightarrow> MessageFragment" where
  "fragmentForAction d action index =
     (if action = CHR ''F'' then \<lparr>offset = 1, val = static_cast_char (qBound_char 0 index 3 + 1)\<rparr>
      else if action = CHR ''B'' then \<lparr>offset = 1, val = static_cast_char (qBound_char 0 index 3 + 5)\<rparr>
      else if action = CHR ''L'' then \<lparr>offset = 1, val = static_cast_char (qBound_char 0 index 3 + 9)\<rparr>
      else if action = CHR ''R'' then \<lparr>offset = 1, val = static_cast_char (qBound_char 0 index 3 + 13)\<rparr>
      else if action = CHR ''O'' then \<lparr>offset = 2, val = 0x3c\<rparr>
      else if action = CHR ''C'' then \<lparr>offset = 2, val = 0x3d\<rparr>
      else if action = CHR ''U'' then \<lparr>offset = 3, val = 0x3e\<rparr>
      else if action = CHR ''D'' then \<lparr>offset = 3, val = 0x3f\<rparr>
      else if action = CHR ''M'' \<or> action = CHR ''V''
        then \<lparr>offset = 4, val = static_cast_char (qMax 0 index + 21)\<rparr>
      else if action = CHR ''E''
        then \<lparr>offset = 5, val = static_cast_char
               (if index \<noteq> 0
                then qBound 1 index 63 + (if m_firmwareRevision d = 1 then 0x35 else 0x47)
                else 0x3b)\<rparr>
      else no_fragment)"

section \<open>Command transmitter\<close>

definition transmitMessage :: "Private \<Rightarrow> Private" where
  "transmitMessage d =
     (if m_robotControl d \<noteq> None
      then emit (writeCharacteristic (m_writeCharacteristic d) (m_message d))
             (d\<lparr>m_pendingMessageCount := m_pendingMessageCount d + 1\<rparr>)
      else d)"

text \<open>\<open>setCurrentMessage(int offset, char value)\<close>\<close>

definition setCurrentMessage_at :: "int \<Rightarrow> byte \<Rightarrow> Private \<Rightarrow> Private" where
  "setCurrentMessage_at off v d =
     (if off \<ge> 0 \<and> off < int (length (m_message d)) \<and> m_message d ! nat off \<noteq> v
      then (let d1 = d\<lparr>m_message := (m_message d)[nat off := v]\<rparr>
            in transmitMessage (emit (currentMessageChanged (m_message d1)) d1))
      else d)"

text \<open>\<open>setCurrentMessage(const QByteArray &message)\<close>\<close>

definition setCurrentMessage :: "QByteArray \<Rightarrow> Private \<Rightarrow> Private" where
  "setCurrentMessage message d =
     (if message \<noteq> m_message d \<and> length message = length (m_message d)
      then (let d1 = d\<lparr>m_message := message\<rparr>
            in transmitMessage (emit (currentMessageChanged (m_message d1)) d1))
      else d)"

definition state :: "Private \<Rightarrow> State" where
  "state d =
     (if isValid (m_writeCharacteristic d) then ConnectedState
      else if m_robotControl d \<noteq> None \<and> m_deviceInformation d \<noteq> None then ConnectingState
      else DisconnectedState)"

definition checkState :: "Private \<Rightarrow> Private" where
  "checkState d =
     (let newState = state d
      in if newState \<noteq> m_oldState d
         then (emit (stateChanged newState (m_oldState d)) d)\<lparr>m_oldState := newState\<rparr>
         else d)"

section \<open>Actions\<close>

definition startAction :: "char \<Rightarrow> int \<Rightarrow> Private \<Rightarrow> bool \<times> Private" where
  "startAction action index d =
     (if action = CHR ''S'' then (True, setCurrentMessage s_pauseMessage d)
      else
        (let fragment = fragmentForAction d action index
         in if fragment_bool fragment
            then (let d1 = (if offset fragment = 4
                            then d\<lparr>m_audioLoop := (action = CHR ''M'')\<rparr> else d)
                  in (True, setCurrentMessage_at (offset fragment) (val fragment) d1))
            else (False, d)))"

definition stopAction :: "char \<Rightarrow> int \<Rightarrow> Private \<Rightarrow> bool \<times> Private" where
  "stopAction action index d =
     (let fragment = fragmentForAction d action index
      in if fragment_bool fragment
         then (if val fragment = m_message d ! nat (offset fragment)
               then (True, setCurrentMessage_at (offset fragment)
                             (s_pauseMessage ! nat (offset fragment)) d)
               else (False, d))
         else (False, d))"

section \<open>Notification parser\<close>

text \<open>
  A notification payload is a \<open>QByteArray\<close> read as text; here it is a \<open>string\<close>, whose
  characters are bytes. Qt 5's \<open>QString::fromLatin1(const QByteArray &)\<close> converts the bytes
  up to the first NUL.
\<close>

definition fromLatin1 :: "string \<Rightarrow> string" where
  "fromLatin1 bytes = takeWhile (\<lambda>c. c \<noteq> CHR 0x00) bytes"

text \<open>\<open>\d\<close> of \<open>QRegularExpression\<close> without the Unicode option: an ASCII digit.\<close>

definition is_digit :: "char \<Rightarrow> bool" where
  "is_digit c = (48 \<le> (of_char c :: int) \<and> (of_char c :: int) \<le> 57)"

text \<open>
  \<open>QRegularExpression("V(\d+)<word>").match(text)\<close> for a word that starts with a
  letter: \<open>match_here\<close> tries the pattern at the start of the text (the digits are
  taken greedily, and no shorter run can be followed by the word), \<open>regex_match\<close> returns
  capture group 1 of the leftmost match, or \<open>None\<close> when \<open>hasMatch()\<close> is false.
\<close>

fun match_here :: "string \<Rightarrow> string \<Rightarrow> string option" where
  "match_here word [] = None"
| "match_here word (c # cs) =
     (if c = CHR ''V''
      then (let digits = takeWhile is_digit cs; rest = dropWhile is_digit cs
            in if digits \<noteq> [] \<and> take (length word) rest = word then Some digits else None)
      else None)"

fun regex_match :: "string \<Rightarrow> string \<Rightarrow> string option" where
  "regex_match word [] = None"
| "regex_match word (c # cs) =
     (case match_here word (c # cs) of
        Some digits \<Rightarrow> Some digits
      | None \<Rightarrow> regex_match word cs)"

text \<open>
  \<open>QStringRef::toInt()\<close> on a run of decimal digits: the number they denote, or 0 when
  it does not fit a 32-bit \<open>int\<close> (the conversion fails and Qt returns 0).
\<close>

definition decimal :: "string \<Rightarrow> int" where
  "decimal digits = foldl (\<lambda>n c. 10 * n + (of_char c - 48)) 0 digits"

definition toInt :: "string \<Rightarrow> int" where
  "toInt digits = (if decimal digits \<le> 2147483647 then decimal digits else 0)"

definition onCharacteristicChanged :: "QLowEnergyCharacteristic \<Rightarrow> string \<Rightarrow> Private \<Rightarrow> Private" where
  "onCharacteristicChanged info value d =
     (if uuid info = Some s_notifyUuid
      then (let text = fromLatin1 value
            in case regex_match ''Play'' text of
                 Some digits \<Rightarrow>
                   (let d1 = d\<lparr>m_currentSound := toInt digits\<rparr>;
                        d2 = (if \<not> m_audioLoop d1
                              then snd (stopAction (CHR ''V'') (m_currentSound d1) d1) else d1)
                    in emit (currentSoundChanged (m_currentSound d2)) d2)
               | None \<Rightarrow>
                   (case regex_match ''End'' text of
                      Some digits \<Rightarrow>
                        (let d1 = d\<lparr>m_currentSound := toInt digits\<rparr>;
                             d2 = (if m_audioLoop d1
                                   then snd (startAction (CHR ''M'') (m_currentSound d1) d1)
                                   else (let d3 = d1\<lparr>m_currentSound := - m_currentSound d1\<rparr>
                                         in snd (stopAction (CHR ''V'') (- m_currentSound d3) d3)))
                         in emit (currentSoundChanged (m_currentSound d2)) d2)
                    | None \<Rightarrow> d))
      else d)"

section \<open>Write acknowledgment and the periodic tick\<close>

definition onCharacteristicWritten :: "QLowEnergyCharacteristic \<Rightarrow> QByteArray \<Rightarrow> Private \<Rightarrow> Private" where
  "onCharacteristicWritten info value d =
     (if info = m_writeCharacteristic d
      then setCurrentMessage_at 5 0 (d\<lparr>m_pendingMessageCount := m_pendingMessageCount d - 1\<rparr>)
      else d)"

definition onEmitterTimeout :: "Private \<Rightarrow> Private" where
  "onEmitterTimeout d = (if m_pendingMessageCount d = 0 then transmitMessage d else d)"

section \<open>Attaching and service discovery\<close>

text \<open>
  What the BLE stack answers when the session queries a service object: the value of the
  firmware-revision characteristic (\<open>None\<close> when that characteristic is invalid), whether
  the notify characteristic and its client-configuration descriptor are valid, and the
  write characteristic the service hands out.
\<close>

record ServiceAnswers =
  firmwareRevisionString :: "string option"
  notifyCharacteristic_isValid :: bool
  notifyDescriptor_isValid :: bool
  writeCharacteristic_of :: QLowEnergyCharacteristic

definition readFirmwareVersion :: "ServiceAnswers \<Rightarrow> Private \<Rightarrow> bool \<times> Private" where
  "readFirmwareVersion env d =
     (if m_deviceInformation d \<noteq> None
      then (case firmwareRevisionString env of
              Some value \<Rightarrow>
                (if value = ''Ver2.0'' then (True, d\<lparr>m_firmwareRevision := 2\<rparr>)
                 else if value = ''Ver1.0'' then (True, d\<lparr>m_firmwareRevision := 1\<rparr>)
                 else (False, d))
            | None \<Rightarrow> (False, d))
      else (False, d))"

definition startNotification :: "ServiceAnswers \<Rightarrow> Private \<Rightarrow> bool \<times> Private" where
  "startNotification env d =
     (if m_robotControl d \<noteq> None
      then (if notifyCharacteristic_isValid env \<and> notifyDescriptor_isValid env
            then (True, emit writeDescriptor d)
            else (False, d))
      else (False, d))"

definition startTransmission :: "ServiceAnswers \<Rightarrow> Private \<Rightarrow> bool \<times> Private" where
  "startTransmission env d =
     (if m_robotControl d \<noteq> None
      then (let d1 = d\<lparr>m_writeCharacteristic := writeCharacteristic_of env\<rparr>
            in if isValid (m_writeCharacteristic d1)
               then (True, onEmitterTimeout ((checkState d1)\<lparr>m_emitter := True\<rparr>))
               else (False, d1))
      else (False, d))"

definition onServiceStateChanged ::
  "ServiceAnswers \<Rightarrow> QLowEnergyService \<Rightarrow> ServiceState \<Rightarrow> Private \<Rightarrow> Private" where
  "onServiceStateChanged env service newState d =
     (if newState = DiscoveryRequired then emit (discoverDetails service) d
      else if newState = ServiceDiscovered
      then (if Some service = m_deviceInformation d then snd (readFirmwareVersion env d)
            else if Some service = m_robotControl d
            then (case startNotification env d of
                    (True, d1) \<Rightarrow> snd (startTransmission env d1)
                  | (False, d1) \<Rightarrow> d1)
            else d)
      else d)"

text \<open>
  \<open>createService\<close> and \<open>attach\<close>, for a central that hands out both service objects
  (\<open>createService\<close> dereferences the object before \<open>attach\<close> tests it, so a central that
  returns a null pointer is outside the model). Each service object arrives with its
  current state and the answers it gives at that moment.
\<close>

definition createService ::
  "ServiceAnswers \<Rightarrow> QLowEnergyService \<Rightarrow> ServiceState \<Rightarrow> Private \<Rightarrow> Private" where
  "createService env service st d = onServiceStateChanged env service st d"

definition attach ::
  "ServiceAnswers \<Rightarrow> QLowEnergyService \<Rightarrow> ServiceState \<Rightarrow>
   ServiceAnswers \<Rightarrow> QLowEnergyService \<Rightarrow> ServiceState \<Rightarrow> Private \<Rightarrow> bool \<times> Private" where
  "attach envI deviceInformation stI envR robotControl stR d =
     (if state d = ConnectedState then (False, d)
      else (let d1 = createService envI deviceInformation stI d;
                d2 = createService envR robotControl stR d1
            in (True, checkState (d2\<lparr>m_deviceInformation := Some deviceInformation,
                                      m_robotControl := Some robotControl\<rparr>))))"

section \<open>Runs of the session\<close>

text \<open>
  One event is one call into the object: a public operation, or a slot invoked by a
  signal of a service or of the timer. The timer fires only while it is running.
\<close>

datatype event =
    Attach ServiceAnswers QLowEnergyService ServiceState ServiceAnswers QLowEnergyService ServiceState
  | SetCurrentMessage QByteArray
  | StartAction char int
  | StopAction char int
  | ServiceStateChanged ServiceAnswers QLowEnergyService ServiceState
  | CharacteristicChanged QLowEnergyCharacteristic string
  | CharacteristicWritten QLowEnergyCharacteristic QByteArray
  | EmitterTimeout

fun fire :: "event \<Rightarrow> Private \<Rightarrow> Private" where
  "fire (Attach envI i stI envR r stR) d = snd (attach envI i stI envR r stR d)"
| "fire (SetCurrentMessage message) d = setCurrentMessage message d"
| "fire (StartAction action index) d = snd (startAction action index d)"
| "fire (StopAction action index) d = snd (stopAction action index d)"
| "fire (ServiceStateChanged env service st) d = onServiceStateChanged env service st d"
| "fire (CharacteristicChanged info value) d = onCharacteristicChanged info value d"
| "fire (CharacteristicWritten info value) d = onCharacteristicWritten info value d"
| "fire EmitterTimeout d = (if m_emitter d then onEmitterTimeout d else d)"

fun run :: "event list \<Rightarrow> Private \<Rightarrow> Private" where
  "run [] d = d"
| "run (e # es) d = run es (fire e d)"

text \<open>Counting the writes handed to the service and the acknowledgments taken.\<close>

fun is_write :: "effect \<Rightarrow> bool" where
  "is_write (writeCharacteristic c m) = True"
| "is_write e = False"

definition writes :: "Private \<Rightarrow> nat" where
  "writes d = length (filter is_write (effects d))"

fun is_ack :: "event \<Rightarrow> Private \<Rightarrow> bool" where
  "is_ack (CharacteristicWritten info value) d = (info = m_writeCharacteristic d)"
| "is_ack e d = False"

fun acks :: "event list \<Rightarrow> Private \<Rightarrow> nat" where
  "acks [] d = 0"
| "acks (e # es) d = (if is_ack e d then 1 else 0) + acks es (fire e d)"

text \<open>
  The pending-write counter against the writes issued so far, and the members no
  operation but attaching and service discovery touches.
\<close>

definition balance :: "Private \<Rightarrow> int" where
  "balance d = m_pendingMessageCount d - int (writes d)"

definition same_session :: "Private \<Rightarrow> Private \<Rightarrow> bool" where
  "same_session d d' =
     (m_robotControl d' = m_robotControl d \<and> m_deviceInformation d' = m_deviceInformation d
      \<and> m_emitter d' = m_emitter d \<and> length (m_message d') = length (m_message d)
      \<and> balance d' = balance d)"

fun is_sound :: "effect \<Rightarrow> bool" where
  "is_sound (currentSoundChanged n) = True"
| "is_sound e = False"

definition sounds :: "Private \<Rightarrow> effect list" where
  "sounds d = filter is_sound (effects d)"

text \<open>A device-information service and a robot-control service that answer as the robot does.\<close>

definition info_answers :: ServiceAnswers where
  "info_answers = \<lparr>firmwareRevisionString = Some ''Ver1.0'', notifyCharacteristic_isValid = False,
     notifyDescriptor_isValid = False, writeCharacteristic_of = InvalidCharacteristic\<rparr>"

definition robot_answers :: ServiceAnswers where
  "robot_answers = \<lparr>firmwareRevisionString = None, notifyCharacteristic_isValid = True,
     notifyDescriptor_isValid = True, writeCharacteristic_of = Characteristic s_writeUuid 7\<rparr>"

text \<open>Attaching, then both services reporting that their details are discovered.\<close>

definition connect_events :: "event list" where
  "connect_events =
     [Attach info_answers 1 DiscoveryRequired robot_answers 2 DiscoveryRequired,
      ServiceStateChanged info_answers 1 ServiceDiscovered,
      ServiceStateChanged robot_answers 2 ServiceDiscovered]"

section \<open>Derived state of the controller (\<open>controller.cpp\<close>)\<close>

datatype Controller_State =
    UninitializedState | DeviceDiscoveryState | ServiceDiscoveryState
  | Controller_ConnectingState | Controller_ConnectedState | ErrorState

datatype Error = NoError | BluetoothMissingError | DeviceDiscoveryError | DeviceError

text \<open>
  The members \<open>Controller::Private::state()\<close> reads: the error, the central (a pointer,
  \<open>None\<close> when null), whether the discovery agent is active, and the robot service.
\<close>

record Controller_Private =
  m_error :: Error
  m_central :: "nat option"
  m_deviceDiscovery_isActive :: bool
  m_robotService :: Private

definition Controller_state :: "Controller_Private \<Rightarrow> Controller_State" where
  "Controller_state c =
     (if m_error c \<noteq> NoError then ErrorState
      else if state (m_robotService c) = ConnectedState then Controller_ConnectedState
      else if m_central c \<noteq> None then ServiceDiscoveryState
      else if m_deviceDiscovery_isActive c then DeviceDiscoveryState
      else UninitializedState)"

section \<open>Facts about the codec\<close>

lemma as_char_eq: "as_char i = (i + 128) mod 256 - 128"
  by (simp add: as_char_def static_cast_char_def int_word_sint)

lemma uint_static_cast_char: "uint (static_cast_char i) = i mod 256"
  by (simp add: static_cast_char_def uint_word_of_int)

lemma qBound_max_min: "qBound lo v hi = max lo (min hi v)"
  by (simp add: qBound_def qMax_def qMin_def max_def min_def)

lemma qBound_char_in_range:
  "-128 \<le> i \<Longrightarrow> i \<le> 127 \<Longrightarrow> qBound_char 0 i 3 = max 0 (min 3 i)"
  by (simp add: qBound_char_def qBound_max_min as_char_eq)

text \<open>
  While the index fits a \<open>char\<close>, the four locomotion actions encode the clamped index
  plus their base at offset 1.
\<close>

lemma locomotion_in_char_range:
  assumes "-128 \<le> i" and "i \<le> 127"
  shows "fragmentForAction d (CHR ''F'') i = \<lparr>offset = 1, val = static_cast_char (max 0 (min 3 i) + 1)\<rparr>"
    and "fragmentForAction d (CHR ''B'') i = \<lparr>offset = 1, val = static_cast_char (max 0 (min 3 i) + 5)\<rparr>"
    and "fragmentForAction d (CHR ''L'') i = \<lparr>offset = 1, val = static_cast_char (max 0 (min 3 i) + 9)\<rparr>"
    and "fragmentForAction d (CHR ''R'') i = \<lparr>offset = 1, val = static_cast_char (max 0 (min 3 i) + 13)\<rparr>"
  using assms by (simp_all add: fragmentForAction_def qBound_char_in_range)

lemma start_F_examples:
  "m_message (snd (startAction (CHR ''F'') 2 initial)) ! 1 = 3"
  "m_message (snd (startAction (CHR ''F'') 99 initial)) ! 1 = 4"
  by (simp_all add: startAction_def fragmentForAction_def qBound_char_def qBound_max_min as_char_eq
      static_cast_char_def fragment_bool_def setCurrentMessage_at_def initial_def s_pauseMessage_def
      transmitMessage_def emit_def Let_def)

text \<open>
  C3. The claim is that for every integer index the locomotion actions 'F', 'B', 'L', 'R'
  encode, at offset 1, clamp(index, 0, 3) plus the base 1, 5, 9, 13. The code converts the
  index to \<open>char\<close> before it clamps (\<open>qBound<char>\<close>), so an index beyond the range of a
  \<open>char\<close> is clamped after losing its high bits: for index 258 the action 'F' encodes 3
  (258 becomes 2), where clamp(258, 0, 3) + 1 is 4.
\<close>

theorem locomotion_index_258:
  "fragmentForAction d (CHR ''F'') 258 = \<lparr>offset = 1, val = 3\<rparr>
   \<and> m_message (snd (startAction (CHR ''F'') 258 initial)) ! 1 = 3
   \<and> static_cast_char (max 0 (min 3 258) + 1) = 4"
  by (simp add: startAction_def fragmentForAction_def qBound_char_def qBound_max_min as_char_eq
      static_cast_char_def fragment_bool_def setCurrentMessage_at_def initial_def s_pauseMessage_def
      transmitMessage_def emit_def Let_def)

text \<open>
  C4, as claimed: for the extension action 'E' with index 0 the value is the idle value 0.
  The code returns 0x3b there.
\<close>

theorem extension_index_0:
  "fragmentForAction initial (CHR ''E'') 0 = \<lparr>offset = 5, val = 0x3b\<rparr>
   \<and> val (fragmentForAction initial (CHR ''E'') 0) \<noteq> 0"
  by (simp add: fragmentForAction_def static_cast_char_def)

text \<open>
  C4, amended: the extension action 'E' has offset 5; for every nonzero index its value
  is clamp(index, 1, 63) + 0x35 when the firmware revision is 1 and clamp(index, 1, 63) +
  0x47 for every other revision (2 or unknown); for index 0 its value is 0x3b.
\<close>

theorem extension_fragment:
  "offset (fragmentForAction d (CHR ''E'') index) = 5
   \<and> uint (val (fragmentForAction d (CHR ''E'') index)) =
       (if index = 0 then 0x3b
        else max 1 (min 63 index) + (if m_firmwareRevision d = 1 then 0x35 else 0x47))"
  by (simp add: fragmentForAction_def uint_static_cast_char qBound_max_min)

theorem extension_fragment_witness:
  "uint (val (fragmentForAction (initial\<lparr>m_firmwareRevision := 1\<rparr>) (CHR ''E'') 10)) = 10 + 0x35
   \<and> uint (val (fragmentForAction initial (CHR ''E'') 10)) = 10 + 0x47
   \<and> uint (val (fragmentForAction (initial\<lparr>m_firmwareRevision := 2\<rparr>) (CHR ''E'') 10)) = 10 + 0x47
   \<and> uint (val (fragmentForAction initial (CHR ''E'') 0)) = 0x3b"
  using extension_fragment [of "initial\<lparr>m_firmwareRevision := 1\<rparr>" 10]
    extension_fragment [of initial 10] extension_fragment [of "initial\<lparr>m_firmwareRevision := 2\<rparr>" 10]
    extension_fragment [of initial 0]
  by (simp add: initial_def)

section \<open>The controller's derived state\<close>

text \<open>
  C9. Whatever the error flag, the robot session's state, the central handle and the
  discovery activity are, the controller's derived state is one of Uninitialized,
  DeviceDiscovery, ServiceDiscovery, Connected or Error, never Connecting, and it is Error
  whenever the error flag is set.
\<close>

theorem controller_state_never_connecting:
  "Controller_state c \<in> {UninitializedState, DeviceDiscoveryState, ServiceDiscoveryState,
       Controller_ConnectedState, ErrorState}
   \<and> Controller_state c \<noteq> Controller_ConnectingState
   \<and> (m_error c \<noteq> NoError \<longrightarrow> Controller_state c = ErrorState)"
  by (simp add: Controller_state_def)

theorem controller_state_never_connecting_witness:
  "m_error \<lparr>m_error = DeviceError, m_central = Some 1, m_deviceDiscovery_isActive = True,
       m_robotService = initial\<rparr> \<noteq> NoError
   \<and> Controller_state \<lparr>m_error = DeviceError, m_central = Some 1, m_deviceDiscovery_isActive = True,
       m_robotService = initial\<rparr> = ErrorState"
  using controller_state_never_connecting [of "\<lparr>m_error = DeviceError, m_central = Some 1,
       m_deviceDiscovery_isActive = True, m_robotService = initial\<rparr>"]
  by simp

section \<open>Starting and stopping actions\<close>

lemma m_message_transmitMessage [simp]: "m_message (transmitMessage d) = m_message d"
  by (simp add: transmitMessage_def emit_def)

lemma m_message_setCurrentMessage_at:
  "0 \<le> off \<Longrightarrow> off < int (length (m_message d)) \<Longrightarrow>
   m_message (setCurrentMessage_at off v d) = (m_message d)[nat off := v]"
  by (auto simp add: setCurrentMessage_at_def Let_def emit_def)

lemma length_setCurrentMessage_at [simp]:
  "length (m_message (setCurrentMessage_at off v d)) = length (m_message d)"
  by (simp add: setCurrentMessage_at_def Let_def emit_def)

lemma fragment_F_2: "fragmentForAction d (CHR ''F'') 2 = \<lparr>offset = 1, val = 3\<rparr>"
  by (simp add: fragmentForAction_def qBound_char_def qBound_max_min as_char_eq static_cast_char_def)

text \<open>
  C10. Whenever \<open>startAction\<close> or \<open>stopAction\<close> returns failure, the object is left exactly
  as it was: the command buffer is unchanged and nothing is added to the log, so no
  message-changed signal is emitted and no write is issued.
\<close>

theorem failed_action_changes_nothing:
  "(\<not> fst (startAction action index d) \<longrightarrow> snd (startAction action index d) = d)
   \<and> (\<not> fst (stopAction action index d) \<longrightarrow> snd (stopAction action index d) = d)"
  by (simp add: startAction_def stopAction_def Let_def)

theorem failed_action_changes_nothing_witness:
  "\<not> fst (startAction (CHR ''X'') 0 initial) \<and> snd (startAction (CHR ''X'') 0 initial) = initial
   \<and> \<not> fst (stopAction (CHR ''F'') 2 initial) \<and> snd (stopAction (CHR ''F'') 2 initial) = initial"
proof -
  have x: "\<not> fst (startAction (CHR ''X'') 0 initial)"
    by (simp add: startAction_def fragmentForAction_def no_fragment_def fragment_bool_def)
  have f: "\<not> fst (stopAction (CHR ''F'') 2 initial)"
    by (simp add: stopAction_def fragment_F_2 fragment_bool_def initial_def s_pauseMessage_def)
  show ?thesis
    using x f failed_action_changes_nothing [of "CHR ''X''" 0 initial]
      failed_action_changes_nothing [of "CHR ''F''" 2 initial]
    by simp
qed

text \<open>
  C5. For every action that has a fragment and every index, on a six-byte buffer,
  \<open>stopAction\<close> succeeds exactly when the byte at the fragment's offset holds the
  fragment's value, and on success that byte is the pause message's byte. In particular
  \<open>stopAction('F', 2)\<close> right after \<open>startAction('F', 2)\<close> succeeds and restores byte 1 to
  the pause message's byte, and a second \<open>stopAction('F', 2)\<close> fails.
\<close>

theorem stopAction_active_only:
  assumes "length (m_message d) = 6"
    and "fragment_bool (fragmentForAction d action index)"
  shows "fst (stopAction action index d) =
           (m_message d ! nat (offset (fragmentForAction d action index))
              = val (fragmentForAction d action index))
       \<and> (fst (stopAction action index d) \<longrightarrow>
            m_message (snd (stopAction action index d)) =
              (m_message d)[nat (offset (fragmentForAction d action index)) :=
                 s_pauseMessage ! nat (offset (fragmentForAction d action index))])
       \<and> fst (stopAction (CHR ''F'') 2 (snd (startAction (CHR ''F'') 2 d)))
       \<and> m_message (snd (stopAction (CHR ''F'') 2 (snd (startAction (CHR ''F'') 2 d)))) ! 1
            = s_pauseMessage ! 1
       \<and> \<not> fst (stopAction (CHR ''F'') 2
                 (snd (stopAction (CHR ''F'') 2 (snd (startAction (CHR ''F'') 2 d)))))"
proof -
  let ?f = "fragmentForAction d action index"
  have off: "0 \<le> offset ?f" "offset ?f < int (length (m_message d))"
    using assms by (simp_all add: fragment_bool_def)
  have general: "fst (stopAction action index d) = (m_message d ! nat (offset ?f) = val ?f)"
    using assms(2) by (auto simp: stopAction_def Let_def)
  have written: "fst (stopAction action index d) \<longrightarrow>
      m_message (snd (stopAction action index d)) =
        (m_message d)[nat (offset ?f) := s_pauseMessage ! nat (offset ?f)]"
    using assms(2) off by (simp add: stopAction_def Let_def m_message_setCurrentMessage_at)
  let ?d1 = "snd (startAction (CHR ''F'') 2 d)"
  have m1: "m_message ?d1 = (m_message d)[1 := 3]"
    using assms(1)
    by (simp add: startAction_def fragment_F_2 fragment_bool_def m_message_setCurrentMessage_at)
  have r2: "fst (stopAction (CHR ''F'') 2 ?d1)"
    using assms(1) by (simp add: stopAction_def fragment_F_2 fragment_bool_def m1)
  have m2: "m_message (snd (stopAction (CHR ''F'') 2 ?d1)) = (m_message d)[1 := 0x11]"
    using assms(1)
    by (simp add: stopAction_def fragment_F_2 fragment_bool_def m1 m_message_setCurrentMessage_at
        s_pauseMessage_def)
  have r3: "\<not> fst (stopAction (CHR ''F'') 2 (snd (stopAction (CHR ''F'') 2 ?d1)))"
    using assms(1) m2
    by (simp add: stopAction_def [of _ _ "snd (stopAction (CHR ''F'') 2 ?d1)"] fragment_F_2 fragment_bool_def)
  have b2: "m_message (snd (stopAction (CHR ''F'') 2 ?d1)) ! 1 = s_pauseMessage ! 1"
    using assms(1) by (simp add: m2 s_pauseMessage_def)
  show ?thesis using general written r2 b2 r3 by blast
qed

theorem stopAction_active_only_witness:
  "length (m_message initial) = 6
   \<and> fragment_bool (fragmentForAction initial (CHR ''U'') 0)
   \<and> \<not> fst (stopAction (CHR ''U'') 0 initial)
   \<and> fst (stopAction (CHR ''F'') 2 (snd (startAction (CHR ''F'') 2 initial)))
   \<and> m_message (snd (stopAction (CHR ''F'') 2 (snd (startAction (CHR ''F'') 2 initial)))) ! 1 = 0x11"
proof -
  have l: "length (m_message initial) = 6"
    by (simp add: initial_def s_pauseMessage_def)
  have f: "fragment_bool (fragmentForAction initial (CHR ''U'') 0)"
    by (simp add: fragmentForAction_def fragment_bool_def)
  show ?thesis
    using l f stopAction_active_only [OF l f]
    by (simp add: fragmentForAction_def initial_def s_pauseMessage_def)
qed

section \<open>What the operations leave alone\<close>

lemma same_session_refl [simp]: "same_session d d"
  by (simp add: same_session_def)

lemma same_session_trans: "same_session d d1 \<Longrightarrow> same_session d1 d2 \<Longrightarrow> same_session d d2"
  by (simp add: same_session_def)

lemma writes_emit: "writes (emit e d) = writes d + (if is_write e then 1 else 0)"
  by (simp add: writes_def emit_def)

lemma same_session_transmitMessage: "same_session d (transmitMessage d)"
  by (simp add: same_session_def transmitMessage_def balance_def writes_def emit_def)

lemma same_session_setCurrentMessage_at: "same_session d (setCurrentMessage_at off v d)"
  by (simp add: same_session_def setCurrentMessage_at_def transmitMessage_def balance_def
      writes_def emit_def Let_def)

lemma same_session_setCurrentMessage: "same_session d (setCurrentMessage message d)"
  by (simp add: same_session_def setCurrentMessage_def transmitMessage_def balance_def
      writes_def emit_def Let_def)

lemma same_session_checkState: "same_session d (checkState d)"
  by (simp add: same_session_def checkState_def balance_def writes_def emit_def Let_def)

lemma same_session_audioLoop: "same_session d (d\<lparr>m_audioLoop := b\<rparr>)"
  by (simp add: same_session_def balance_def writes_def)

lemma same_session_currentSound: "same_session d (d\<lparr>m_currentSound := n\<rparr>)"
  by (simp add: same_session_def balance_def writes_def)

lemma same_session_emit_sound: "same_session d (emit (currentSoundChanged n) d)"
  by (simp add: same_session_def balance_def writes_def emit_def)

lemma same_session_startAction: "same_session d (snd (startAction action index d))"
  unfolding startAction_def Let_def
  by (auto intro: same_session_setCurrentMessage same_session_trans [OF same_session_audioLoop same_session_setCurrentMessage_at]
      same_session_setCurrentMessage_at)

lemma same_session_stopAction: "same_session d (snd (stopAction action index d))"
  unfolding stopAction_def Let_def
  by (auto intro: same_session_setCurrentMessage_at)

lemma same_session_onEmitterTimeout: "same_session d (onEmitterTimeout d)"
  by (simp add: onEmitterTimeout_def same_session_transmitMessage)

lemma same_session_onCharacteristicChanged:
  "same_session d (onCharacteristicChanged info value d)"
proof -
  have play: "same_session d (emit (currentSoundChanged k) d2)"
    if "same_session d d2" for d2 k
    using that same_session_emit_sound same_session_trans by blast
  have stop: "same_session d (snd (stopAction a i (d\<lparr>m_currentSound := n\<rparr>)))" for a i n
    using same_session_currentSound same_session_stopAction same_session_trans by blast
  have start: "same_session d (snd (startAction a i (d\<lparr>m_currentSound := n\<rparr>)))" for a i n
    using same_session_currentSound same_session_startAction same_session_trans by blast
  have stop2: "same_session d (snd (stopAction a i (d\<lparr>m_currentSound := n, m_currentSound := k\<rparr>)))" for a i n k
    using stop by simp
  show ?thesis
    unfolding onCharacteristicChanged_def Let_def
    by (auto split: option.splits intro!: play stop start stop2 same_session_currentSound)
qed


lemma balance_onCharacteristicWritten:
  "balance (onCharacteristicWritten info value d) =
     balance d - (if info = m_writeCharacteristic d then 1 else 0)"
proof -
  have "balance (setCurrentMessage_at 5 0 (d\<lparr>m_pendingMessageCount := m_pendingMessageCount d - 1\<rparr>))
      = balance (d\<lparr>m_pendingMessageCount := m_pendingMessageCount d - 1\<rparr>)"
    using same_session_setCurrentMessage_at [of "d\<lparr>m_pendingMessageCount := m_pendingMessageCount d - 1\<rparr>" 5 0]
    by (simp add: same_session_def)
  then show ?thesis
    by (simp add: onCharacteristicWritten_def balance_def writes_def)
qed

lemma session_onCharacteristicWritten:
  "m_robotControl (onCharacteristicWritten info value d) = m_robotControl d
   \<and> m_deviceInformation (onCharacteristicWritten info value d) = m_deviceInformation d
   \<and> m_emitter (onCharacteristicWritten info value d) = m_emitter d
   \<and> length (m_message (onCharacteristicWritten info value d)) = length (m_message d)"
  using same_session_setCurrentMessage_at [of "d\<lparr>m_pendingMessageCount := m_pendingMessageCount d - 1\<rparr>" 5 0]
  by (simp add: onCharacteristicWritten_def same_session_def)

lemma same_session_readFirmwareVersion: "same_session d (snd (readFirmwareVersion env d))"
  by (simp add: readFirmwareVersion_def same_session_def balance_def writes_def split: option.splits)

lemma same_session_startNotification: "same_session d (snd (startNotification env d))"
  by (simp add: startNotification_def same_session_def balance_def writes_def emit_def)

lemma session_startTransmission:
  "m_robotControl (snd (startTransmission env d)) = m_robotControl d
   \<and> m_deviceInformation (snd (startTransmission env d)) = m_deviceInformation d
   \<and> length (m_message (snd (startTransmission env d))) = length (m_message d)
   \<and> balance (snd (startTransmission env d)) = balance d
   \<and> (m_emitter (snd (startTransmission env d)) =
        (m_emitter d \<or> (m_robotControl d \<noteq> None \<and> isValid (writeCharacteristic_of env))))"
  by (simp add: startTransmission_def onEmitterTimeout_def transmitMessage_def checkState_def
      emit_def balance_def writes_def Let_def)

lemma session_onServiceStateChanged:
  "m_robotControl (onServiceStateChanged env service st d) = m_robotControl d
   \<and> m_deviceInformation (onServiceStateChanged env service st d) = m_deviceInformation d
   \<and> length (m_message (onServiceStateChanged env service st d)) = length (m_message d)
   \<and> balance (onServiceStateChanged env service st d) = balance d
   \<and> (m_emitter d \<longrightarrow> m_emitter (onServiceStateChanged env service st d))
   \<and> (m_emitter (onServiceStateChanged env service st d) \<longrightarrow>
        m_emitter d \<or> m_robotControl d \<noteq> None)"
proof -
  have n: "same_session d (snd (startNotification env d))"
    by (rule same_session_startNotification)
  have f: "same_session d (snd (readFirmwareVersion env d))"
    by (rule same_session_readFirmwareVersion)
  have t: "m_robotControl (snd (startTransmission env d1)) = m_robotControl d
   \<and> m_deviceInformation (snd (startTransmission env d1)) = m_deviceInformation d
   \<and> length (m_message (snd (startTransmission env d1))) = length (m_message d)
   \<and> balance (snd (startTransmission env d1)) = balance d
   \<and> (m_emitter d \<longrightarrow> m_emitter (snd (startTransmission env d1)))
   \<and> (m_emitter (snd (startTransmission env d1)) \<longrightarrow> m_emitter d \<or> m_robotControl d \<noteq> None)"
    if "d1 = snd (startNotification env d)" for d1
    using n session_startTransmission [of env d1] that by (auto simp: same_session_def)
  have e: "same_session d (emit (discoverDetails service) d)"
    by (simp add: same_session_def balance_def writes_def emit_def)
  show ?thesis
    using n f t e unfolding onServiceStateChanged_def
    by (auto simp: same_session_def split: prod.splits bool.splits)
qed


text \<open>Attaching and service discovery set the handles and start the timer, and never undo either.\<close>

lemma session_attach:
  "length (m_message (snd (attach envI i stI envR r stR d))) = length (m_message d)
   \<and> balance (snd (attach envI i stI envR r stR d)) = balance d
   \<and> (m_emitter d \<longrightarrow> m_emitter (snd (attach envI i stI envR r stR d)))
   \<and> (m_robotControl d \<noteq> None \<longrightarrow> m_robotControl (snd (attach envI i stI envR r stR d)) \<noteq> None)
   \<and> (m_deviceInformation d \<noteq> None \<longrightarrow>
        m_deviceInformation (snd (attach envI i stI envR r stR d)) \<noteq> None)
   \<and> (m_emitter (snd (attach envI i stI envR r stR d)) \<longrightarrow>
        m_emitter d \<or> m_robotControl (snd (attach envI i stI envR r stR d)) \<noteq> None)"
proof (cases "state d = ConnectedState")
  case True
  then show ?thesis by (simp add: attach_def)
next
  case False
  define d1 where "d1 = onServiceStateChanged envI i stI d"
  define d2 where "d2 = onServiceStateChanged envR r stR d1"
  define d3 where "d3 = d2\<lparr>m_deviceInformation := Some i, m_robotControl := Some r\<rparr>"
  have a: "snd (attach envI i stI envR r stR d) = checkState d3"
    using False by (simp add: attach_def createService_def d1_def d2_def d3_def Let_def)
  have s1: "length (m_message d1) = length (m_message d) \<and> balance d1 = balance d
      \<and> (m_emitter d \<longrightarrow> m_emitter d1)"
    using session_onServiceStateChanged [of envI i stI d] by (simp add: d1_def)
  have s2: "length (m_message d2) = length (m_message d1) \<and> balance d2 = balance d1
      \<and> (m_emitter d1 \<longrightarrow> m_emitter d2)"
    using session_onServiceStateChanged [of envR r stR d1] by (simp add: d2_def)
  have s3: "length (m_message d3) = length (m_message d2) \<and> balance d3 = balance d2
      \<and> m_emitter d3 = m_emitter d2 \<and> m_robotControl d3 = Some r \<and> m_deviceInformation d3 = Some i"
    by (simp add: d3_def balance_def writes_def)
  have s4: "same_session d3 (checkState d3)"
    by (rule same_session_checkState)
  show ?thesis
    using a s1 s2 s3 s4 by (simp add: same_session_def)
qed

text \<open>Event by event, then along a run.\<close>

lemma balance_fire: "balance (fire e d) = balance d - (if is_ack e d then 1 else 0)"
proof (cases e)
  case (Attach envI i stI envR r stR)
  then show ?thesis using session_attach [of envI i stI envR r stR d] by simp
next
  case (SetCurrentMessage message)
  then show ?thesis using same_session_setCurrentMessage [of d message] by (simp add: same_session_def)
next
  case (StartAction action index)
  then show ?thesis using same_session_startAction [of d action index] by (simp add: same_session_def)
next
  case (StopAction action index)
  then show ?thesis using same_session_stopAction [of d action index] by (simp add: same_session_def)
next
  case (ServiceStateChanged env service st)
  then show ?thesis using session_onServiceStateChanged [of env service st d] by simp
next
  case (CharacteristicChanged info payload)
  then show ?thesis
    using same_session_onCharacteristicChanged [of d info payload] by (simp add: same_session_def)
next
  case (CharacteristicWritten info payload)
  then show ?thesis by (simp add: balance_onCharacteristicWritten)
next
  case EmitterTimeout
  then show ?thesis using same_session_onEmitterTimeout [of d] by (simp add: same_session_def)
qed

lemma balance_run: "balance (run es d) = balance d - int (acks es d)"
  by (induction es arbitrary: d) (simp_all add: balance_fire)

lemma session_fire:
  "length (m_message (fire e d)) = length (m_message d)
   \<and> (m_emitter d \<longrightarrow> m_emitter (fire e d))
   \<and> (m_robotControl d \<noteq> None \<longrightarrow> m_robotControl (fire e d) \<noteq> None)
   \<and> (m_deviceInformation d \<noteq> None \<longrightarrow> m_deviceInformation (fire e d) \<noteq> None)
   \<and> (m_emitter (fire e d) \<longrightarrow> m_emitter d \<or> m_robotControl (fire e d) \<noteq> None)"
proof (cases e)
  case (Attach envI i stI envR r stR)
  then show ?thesis using session_attach [of envI i stI envR r stR d] by simp
next
  case (SetCurrentMessage message)
  then show ?thesis using same_session_setCurrentMessage [of d message] by (simp add: same_session_def)
next
  case (StartAction action index)
  then show ?thesis using same_session_startAction [of d action index] by (simp add: same_session_def)
next
  case (StopAction action index)
  then show ?thesis using same_session_stopAction [of d action index] by (simp add: same_session_def)
next
  case (ServiceStateChanged env service st)
  then show ?thesis using session_onServiceStateChanged [of env service st d] by auto
next
  case (CharacteristicChanged info payload)
  then show ?thesis
    using same_session_onCharacteristicChanged [of d info payload] by (simp add: same_session_def)
next
  case (CharacteristicWritten info payload)
  then show ?thesis using session_onCharacteristicWritten [of info payload d] by simp
next
  case EmitterTimeout
  then show ?thesis using same_session_onEmitterTimeout [of d] by (simp add: same_session_def)
qed

lemma session_run:
  "length (m_message (run es d)) = length (m_message d)
   \<and> (m_emitter d \<longrightarrow> m_emitter (run es d))
   \<and> (m_robotControl d \<noteq> None \<longrightarrow> m_robotControl (run es d) \<noteq> None)
   \<and> (m_deviceInformation d \<noteq> None \<longrightarrow> m_deviceInformation (run es d) \<noteq> None)"
proof (induction es arbitrary: d)
  case Nil
  then show ?case by simp
next
  case (Cons e es)
  show ?case using Cons.IH [of "fire e d"] session_fire [of e d] by simp
qed

text \<open>Every state the constructed session reaches has its six-byte buffer.\<close>

lemma reachable_message_length: "length (m_message (run es initial)) = 6"
  using session_run [of es initial] by (simp add: initial_def s_pauseMessage_def)

lemma timer_needs_robotControl:
  "(m_emitter d \<longrightarrow> m_robotControl d \<noteq> None) \<Longrightarrow>
   m_emitter (run es d) \<Longrightarrow> m_robotControl (run es d) \<noteq> None"
proof (induction es arbitrary: d)
  case Nil
  then show ?case by simp
next
  case (Cons e es)
  have "m_emitter (fire e d) \<longrightarrow> m_robotControl (fire e d) \<noteq> None"
    using Cons.prems(1) session_fire [of e d] by blast
  then show ?case using Cons.IH [of "fire e d"] Cons.prems(2) by simp
qed

section \<open>The pending-write counter and the periodic tick\<close>

lemma run_append: "run (es @ es') d = run es' (run es d)"
  by (induction es arbitrary: d) simp_all

lemma run_connect_events:
  "run connect_events initial =
     \<lparr>m_oldState = ConnectedState, m_deviceInformation = Some 1, m_robotControl = Some 2,
      m_writeCharacteristic = Characteristic s_writeUuid 7, m_firmwareRevision = 1,
      m_currentSound = 0, m_pendingMessageCount = 1, m_message = s_pauseMessage,
      m_audioLoop = False, m_emitter = True,
      effects = [discoverDetails 1, discoverDetails 2,
        stateChanged ConnectingState DisconnectedState, writeDescriptor,
        stateChanged ConnectedState ConnectingState,
        writeCharacteristic (Characteristic s_writeUuid 7) s_pauseMessage]\<rparr>"
  by (simp add: connect_events_def initial_def attach_def state_def createService_def
      onServiceStateChanged_def emit_def checkState_def startNotification_def robot_answers_def
      info_answers_def readFirmwareVersion_def startTransmission_def onEmitterTimeout_def
      transmitMessage_def Let_def)

lemma run_connect_events_ack:
  "run (connect_events @ [CharacteristicWritten (Characteristic s_writeUuid 7) s_pauseMessage]) initial =
     (run connect_events initial)\<lparr>m_pendingMessageCount := 0\<rparr>"
  by (simp add: run_append run_connect_events onCharacteristicWritten_def setCurrentMessage_at_def
      s_pauseMessage_def)

text \<open>
  C1, as claimed: the pending-write counter never goes below zero, an acknowledgment
  arriving at zero being a no-op. After the session has connected (one write issued) and
  that write is acknowledged the counter is 0, and a second acknowledgment makes it -1.
\<close>

theorem extra_acknowledgment_goes_negative:
  "m_pendingMessageCount
     (run (connect_events @ [CharacteristicWritten (Characteristic s_writeUuid 7) s_pauseMessage])
        initial) = 0
   \<and> m_pendingMessageCount
       (run (connect_events @ [CharacteristicWritten (Characteristic s_writeUuid 7) s_pauseMessage,
                               CharacteristicWritten (Characteristic s_writeUuid 7) s_pauseMessage])
          initial) = -1"
  by (simp add: run_append run_connect_events onCharacteristicWritten_def
      setCurrentMessage_at_def s_pauseMessage_def)

lemma acks_append: "acks (es @ es') d = acks es d + acks es' (run es d)"
  by (induction es arbitrary: d) simp_all

lemma acks_connect_events: "acks connect_events initial = 0"
  by (simp add: connect_events_def)

lemma run_connect_events_two_acks:
  "run (connect_events @ [CharacteristicWritten (Characteristic s_writeUuid 7) s_pauseMessage,
                          CharacteristicWritten (Characteristic s_writeUuid 7) s_pauseMessage]) initial =
     (run connect_events initial)\<lparr>m_pendingMessageCount := -1\<rparr>"
  by (simp add: run_append run_connect_events onCharacteristicWritten_def setCurrentMessage_at_def
      s_pauseMessage_def)

lemma run_connect_events_extension:
  "run (connect_events @ [CharacteristicWritten (Characteristic s_writeUuid 7) s_pauseMessage,
                          CharacteristicWritten (Characteristic s_writeUuid 7) s_pauseMessage,
                          SetCurrentMessage [0x58, 0x11, 0x40, 0x40, 0, 63]]) initial =
     \<lparr>m_oldState = ConnectedState, m_deviceInformation = Some 1, m_robotControl = Some 2,
      m_writeCharacteristic = Characteristic s_writeUuid 7, m_firmwareRevision = 1,
      m_currentSound = 0, m_pendingMessageCount = 0, m_message = [0x58, 0x11, 0x40, 0x40, 0, 63],
      m_audioLoop = False, m_emitter = True,
      effects = [discoverDetails 1, discoverDetails 2,
        stateChanged ConnectingState DisconnectedState, writeDescriptor,
        stateChanged ConnectedState ConnectingState,
        writeCharacteristic (Characteristic s_writeUuid 7) s_pauseMessage,
        currentMessageChanged [0x58, 0x11, 0x40, 0x40, 0, 63],
        writeCharacteristic (Characteristic s_writeUuid 7) [0x58, 0x11, 0x40, 0x40, 0, 63]]\<rparr>"
  by (simp add: run_append run_connect_events onCharacteristicWritten_def setCurrentMessage_at_def
      setCurrentMessage_def transmitMessage_def emit_def s_pauseMessage_def Let_def)

text \<open>
  C1, amended: over every sequence of events the pending-write counter is its starting
  value plus the number of writes issued minus the number of acknowledgments taken on the
  write characteristic, so on a session run from its construction it is non-negative
  exactly when the acknowledgments do not outnumber the writes. Each acknowledgment on the
  write characteristic decrements the counter by one with no floor at zero, and the
  \<open>setCurrentMessage(5, 0)\<close> that follows raises it by one again exactly when byte 5 was
  nonzero and the robot-control handle is set: an acknowledgment arriving at zero makes
  the counter -1 when byte 5 is 0 and leaves it at 0 otherwise.
\<close>

theorem pending_counts_writes_minus_acknowledgments:
  "m_pendingMessageCount (run es d) =
     m_pendingMessageCount d + (int (writes (run es d)) - int (writes d)) - int (acks es d)
   \<and> (0 \<le> m_pendingMessageCount (run es initial)) = (acks es initial \<le> writes (run es initial))
   \<and> m_pendingMessageCount (onCharacteristicWritten (m_writeCharacteristic d) payload d) =
       m_pendingMessageCount d - 1
         + (if 5 < length (m_message d) \<and> m_message d ! 5 \<noteq> 0 \<and> m_robotControl d \<noteq> None
            then 1 else 0)"
proof -
  have run_eq: "m_pendingMessageCount (run es' d') =
     m_pendingMessageCount d' + (int (writes (run es' d')) - int (writes d')) - int (acks es' d')"
    for es' d'
    using balance_run [of es' d'] by (simp add: balance_def)
  have "m_pendingMessageCount (run es initial) =
      int (writes (run es initial)) - int (acks es initial)"
    using run_eq [of es initial] by (simp add: initial_def writes_def)
  then have sign: "(0 \<le> m_pendingMessageCount (run es initial)) =
      (acks es initial \<le> writes (run es initial))"
    by simp
  have step: "m_pendingMessageCount (onCharacteristicWritten (m_writeCharacteristic d) payload d) =
       m_pendingMessageCount d - 1
         + (if 5 < length (m_message d) \<and> m_message d ! 5 \<noteq> 0 \<and> m_robotControl d \<noteq> None
            then 1 else 0)"
    by (simp add: onCharacteristicWritten_def setCurrentMessage_at_def transmitMessage_def
        emit_def Let_def)
  show ?thesis using run_eq [of es d] sign step by blast
qed

theorem pending_counts_writes_minus_acknowledgments_witness:
  "acks (connect_events @ [CharacteristicWritten (Characteristic s_writeUuid 7) s_pauseMessage,
                           CharacteristicWritten (Characteristic s_writeUuid 7) s_pauseMessage]) initial = 2
   \<and> writes (run (connect_events @ [CharacteristicWritten (Characteristic s_writeUuid 7) s_pauseMessage,
                           CharacteristicWritten (Characteristic s_writeUuid 7) s_pauseMessage]) initial) = 1
   \<and> m_pendingMessageCount
        (run (connect_events @ [CharacteristicWritten (Characteristic s_writeUuid 7) s_pauseMessage,
                           CharacteristicWritten (Characteristic s_writeUuid 7) s_pauseMessage]) initial) = -1
   \<and> m_pendingMessageCount
        (run (connect_events @ [CharacteristicWritten (Characteristic s_writeUuid 7) s_pauseMessage]) initial) = 0
   \<and> m_message
        (run (connect_events @ [CharacteristicWritten (Characteristic s_writeUuid 7) s_pauseMessage]) initial) ! 5 = 0
   \<and> m_pendingMessageCount
        (onCharacteristicWritten (Characteristic s_writeUuid 7) s_pauseMessage
          (run (connect_events @ [CharacteristicWritten (Characteristic s_writeUuid 7) s_pauseMessage]) initial)) = -1
   \<and> m_pendingMessageCount
        (run (connect_events @ [CharacteristicWritten (Characteristic s_writeUuid 7) s_pauseMessage,
                           CharacteristicWritten (Characteristic s_writeUuid 7) s_pauseMessage,
                           SetCurrentMessage [0x58, 0x11, 0x40, 0x40, 0, 63]]) initial) = 0
   \<and> m_message
        (run (connect_events @ [CharacteristicWritten (Characteristic s_writeUuid 7) s_pauseMessage,
                           CharacteristicWritten (Characteristic s_writeUuid 7) s_pauseMessage,
                           SetCurrentMessage [0x58, 0x11, 0x40, 0x40, 0, 63]]) initial) ! 5 = 63
   \<and> m_pendingMessageCount
        (onCharacteristicWritten (Characteristic s_writeUuid 7) s_pauseMessage
          (run (connect_events @ [CharacteristicWritten (Characteristic s_writeUuid 7) s_pauseMessage,
                           CharacteristicWritten (Characteristic s_writeUuid 7) s_pauseMessage,
                           SetCurrentMessage [0x58, 0x11, 0x40, 0x40, 0, 63]]) initial)) = 0"
proof -
  define ack where "ack = CharacteristicWritten (Characteristic s_writeUuid 7) s_pauseMessage"
  define d1 where "d1 = run (connect_events @ [ack]) initial"
  define d2 where "d2 = run (connect_events @ [ack, ack]) initial"
  define d3 where "d3 = run (connect_events @ [ack, ack, SetCurrentMessage [0x58, 0x11, 0x40, 0x40, 0, 63]]) initial"
  have s1: "m_pendingMessageCount d1 = 0" "m_message d1 ! 5 = 0" "length (m_message d1) = 6"
    "m_writeCharacteristic d1 = Characteristic s_writeUuid 7"
  proof -
    have "d1 = (run connect_events initial)\<lparr>m_pendingMessageCount := 0\<rparr>"
      by (simp add: d1_def ack_def run_connect_events_ack)
    then show "m_pendingMessageCount d1 = 0" "m_message d1 ! 5 = 0" "length (m_message d1) = 6"
      "m_writeCharacteristic d1 = Characteristic s_writeUuid 7"
      by (simp_all add: run_connect_events s_pauseMessage_def)
  qed
  have s2: "writes d2 = 1"
  proof -
    have "d2 = (run connect_events initial)\<lparr>m_pendingMessageCount := -1\<rparr>"
      by (simp add: d2_def ack_def run_connect_events_two_acks)
    then show ?thesis
      by (simp add: run_connect_events writes_def)
  qed
  have s3: "m_pendingMessageCount d3 = 0" "m_message d3 ! 5 = 63" "length (m_message d3) = 6"
    "m_writeCharacteristic d3 = Characteristic s_writeUuid 7" "m_robotControl d3 = Some 2"
    by (simp_all add: d3_def ack_def run_connect_events_extension)
  have a: "acks (connect_events @ [ack, ack]) initial = 2"
    by (simp add: acks_append acks_connect_events run_connect_events ack_def
        onCharacteristicWritten_def setCurrentMessage_at_def s_pauseMessage_def)
  have p2: "m_pendingMessageCount d2 = -1"
    using pending_counts_writes_minus_acknowledgments [of "connect_events @ [ack, ack]" initial s_pauseMessage]
      a s2
    by (simp add: d2_def initial_def writes_def)
  have p1: "m_pendingMessageCount (onCharacteristicWritten (Characteristic s_writeUuid 7) s_pauseMessage d1)
      = m_pendingMessageCount d1 - 1
         + (if 5 < length (m_message d1) \<and> m_message d1 ! 5 \<noteq> 0 \<and> m_robotControl d1 \<noteq> None
            then 1 else 0)"
    using pending_counts_writes_minus_acknowledgments [of "[]" d1 s_pauseMessage] s1(4) by simp
  have p3: "m_pendingMessageCount (onCharacteristicWritten (Characteristic s_writeUuid 7) s_pauseMessage d3)
      = m_pendingMessageCount d3 - 1
         + (if 5 < length (m_message d3) \<and> m_message d3 ! 5 \<noteq> 0 \<and> m_robotControl d3 \<noteq> None
            then 1 else 0)"
    using pending_counts_writes_minus_acknowledgments [of "[]" d3 s_pauseMessage] s3(4) by simp
  have q1: "m_pendingMessageCount (onCharacteristicWritten (Characteristic s_writeUuid 7) s_pauseMessage d1) = -1"
    using p1 s1 by simp
  have q3: "m_pendingMessageCount (onCharacteristicWritten (Characteristic s_writeUuid 7) s_pauseMessage d3) = 0"
    using p3 s3 by simp
  show ?thesis
    using a s2 p2 s1(1,2) q1 s3(1,2) q3 unfolding d1_def d2_def d3_def ack_def by blast
qed

text \<open>
  C2. In every state the session reaches from its construction, when the timer is running
  and fires, a write of the current six-byte message is issued if and only if the
  pending-write counter is zero; while the counter is nonzero the tick changes nothing.
\<close>

theorem tick_transmits_iff_idle:
  assumes "d = run es initial" and "m_emitter d"
  shows "(effects (fire EmitterTimeout d) =
            effects d @ [writeCharacteristic (m_writeCharacteristic d) (m_message d)])
           = (m_pendingMessageCount d = 0)
       \<and> writes (fire EmitterTimeout d) = writes d + (if m_pendingMessageCount d = 0 then 1 else 0)
       \<and> (m_pendingMessageCount d \<noteq> 0 \<longrightarrow> fire EmitterTimeout d = d)
       \<and> length (m_message d) = 6"
proof -
  have "m_emitter initial \<longrightarrow> m_robotControl initial \<noteq> None"
    by (simp add: initial_def)
  then have rc: "m_robotControl d \<noteq> None"
    using assms timer_needs_robotControl by blast
  have len: "length (m_message d) = 6"
    using session_run [of es initial] assms(1) by (simp add: initial_def s_pauseMessage_def)
  show ?thesis
    using rc len assms(2)
    by (simp add: onEmitterTimeout_def transmitMessage_def emit_def writes_def)
qed

theorem tick_transmits_iff_idle_witness:
  "m_emitter (run connect_events initial)
   \<and> m_pendingMessageCount (run connect_events initial) = 1
   \<and> fire EmitterTimeout (run connect_events initial) = run connect_events initial
   \<and> m_emitter (run (connect_events @ [CharacteristicWritten (Characteristic s_writeUuid 7) s_pauseMessage]) initial)
   \<and> m_pendingMessageCount (run (connect_events @ [CharacteristicWritten (Characteristic s_writeUuid 7) s_pauseMessage]) initial) = 0
   \<and> writes (fire EmitterTimeout (run (connect_events @ [CharacteristicWritten (Characteristic s_writeUuid 7) s_pauseMessage]) initial))
       = writes (run (connect_events @ [CharacteristicWritten (Characteristic s_writeUuid 7) s_pauseMessage]) initial) + 1"
proof -
  have e1: "m_emitter (run connect_events initial)"
    by (simp add: run_connect_events)
  have e2: "m_emitter (run (connect_events @ [CharacteristicWritten (Characteristic s_writeUuid 7) s_pauseMessage]) initial)"
    by (simp add: run_connect_events_ack run_connect_events)
  have p1: "m_pendingMessageCount (run connect_events initial) = 1"
    by (simp add: run_connect_events)
  have p2: "m_pendingMessageCount (run (connect_events @ [CharacteristicWritten (Characteristic s_writeUuid 7) s_pauseMessage]) initial) = 0"
    by (simp add: run_connect_events_ack)
  show ?thesis
    using e1 e2 p1 p2 tick_transmits_iff_idle [OF refl e1] tick_transmits_iff_idle [OF refl e2]
    by simp
qed

section \<open>The session has no detach\<close>

lemma fragment_bool_iff:
  "fragment_bool (fragmentForAction d action index) = (action \<in> set ''FBLROCUDMVE'')"
  by (simp add: fragmentForAction_def fragment_bool_def no_fragment_def)

text \<open>
  C8, as claimed: once both service handles and the write characteristic are cleared and
  the timer is stopped, \<open>startAction\<close> fails. In such a state (the freshly constructed
  session) \<open>startAction('F', 2)\<close> succeeds.
\<close>

theorem startAction_on_disconnected_session:
  "m_deviceInformation initial = None \<and> m_robotControl initial = None
   \<and> m_writeCharacteristic initial = InvalidCharacteristic \<and> \<not> m_emitter initial
   \<and> state initial = DisconnectedState
   \<and> fst (startAction (CHR ''F'') 2 initial)"
  by (simp add: initial_def state_def startAction_def fragment_F_2 fragment_bool_def)

text \<open>
  C8, amended: \<open>startAction\<close> does not look at the session state. In every state it
  succeeds exactly for 'S' and the actions that have a fragment, and with the
  robot-control handle cleared it issues no write. The session has no detach: no event
  stops the timer once it runs or clears a service handle once it is set.
\<close>

theorem startAction_ignores_session_state:
  "fst (startAction action index d) = (action \<in> set ''SFBLROCUDMVE'')
   \<and> (m_robotControl d = None \<longrightarrow> writes (snd (startAction action index d)) = writes d)
   \<and> (m_emitter d \<longrightarrow> m_emitter (run es d))
   \<and> (m_robotControl d \<noteq> None \<longrightarrow> m_robotControl (run es d) \<noteq> None)
   \<and> (m_deviceInformation d \<noteq> None \<longrightarrow> m_deviceInformation (run es d) \<noteq> None)"
proof -
  have r: "fst (startAction action index d) = (action \<in> set ''SFBLROCUDMVE'')"
    using fragment_bool_iff [of d action index] by (auto simp: startAction_def Let_def)
  have same: "same_session d (snd (startAction action index d))"
    by (rule same_session_startAction)
  have w: "m_robotControl d = None \<longrightarrow> writes (snd (startAction action index d)) = writes d"
  proof
    assume none: "m_robotControl d = None"
    have "m_pendingMessageCount (snd (startAction action index d)) = m_pendingMessageCount d"
      using none
      by (simp add: startAction_def setCurrentMessage_def setCurrentMessage_at_def
          transmitMessage_def emit_def Let_def)
    then show "writes (snd (startAction action index d)) = writes d"
      using same by (simp add: same_session_def balance_def)
  qed
  show ?thesis using r w session_run [of es d] by simp
qed

theorem startAction_ignores_session_state_witness:
  "m_robotControl initial = None
   \<and> fst (startAction (CHR ''F'') 2 initial)
   \<and> writes (snd (startAction (CHR ''F'') 2 initial)) = writes initial
   \<and> m_emitter (run connect_events initial)
   \<and> m_emitter (run [SetCurrentMessage [], EmitterTimeout] (run connect_events initial))
   \<and> m_robotControl (run [SetCurrentMessage [], EmitterTimeout] (run connect_events initial)) \<noteq> None
   \<and> m_deviceInformation (run [SetCurrentMessage [], EmitterTimeout] (run connect_events initial)) \<noteq> None"
proof -
  have i: "m_robotControl initial = None"
    by (simp add: initial_def)
  have e: "m_emitter (run connect_events initial)"
    "m_robotControl (run connect_events initial) \<noteq> None"
    "m_deviceInformation (run connect_events initial) \<noteq> None"
    by (simp_all add: run_connect_events)
  show ?thesis
    using i e startAction_ignores_session_state [of "CHR ''F''" 2 initial "[]"]
      startAction_ignores_session_state [of "CHR ''F''" 2 "run connect_events initial"
        "[SetCurrentMessage [], EmitterTimeout]"]
    by simp
qed

section \<open>Sound notifications\<close>

lemma setCurrentMessage_at_keeps:
  "sounds (setCurrentMessage_at off v d) = sounds d
   \<and> m_currentSound (setCurrentMessage_at off v d) = m_currentSound d
   \<and> m_audioLoop (setCurrentMessage_at off v d) = m_audioLoop d"
  by (simp add: setCurrentMessage_at_def transmitMessage_def emit_def sounds_def Let_def)

lemma stopAction_keeps:
  "sounds (snd (stopAction action index d)) = sounds d
   \<and> m_currentSound (snd (stopAction action index d)) = m_currentSound d
   \<and> m_audioLoop (snd (stopAction action index d)) = m_audioLoop d"
  by (simp add: stopAction_def Let_def setCurrentMessage_at_keeps)

lemma sounds_update [simp]:
  "sounds (d\<lparr>m_currentSound := n\<rparr>) = sounds d"
  "sounds (d\<lparr>m_audioLoop := b\<rparr>) = sounds d"
  by (simp_all add: sounds_def)

lemma setCurrentMessage_keeps:
  "sounds (setCurrentMessage message d) = sounds d
   \<and> m_currentSound (setCurrentMessage message d) = m_currentSound d"
  by (simp add: setCurrentMessage_def transmitMessage_def emit_def sounds_def Let_def)

lemma startAction_keeps:
  "sounds (snd (startAction action index d)) = sounds d
   \<and> m_currentSound (snd (startAction action index d)) = m_currentSound d"
  by (simp add: startAction_def Let_def setCurrentMessage_at_keeps setCurrentMessage_keeps)

lemma sounds_emit: "sounds (emit e d) = sounds d @ (if is_sound e then [e] else [])"
  by (simp add: sounds_def emit_def)

lemma match_here_digits:
  "match_here word s = Some digits \<Longrightarrow> digits \<noteq> [] \<and> (\<forall>c \<in> set digits. is_digit c)"
  by (cases s) (auto simp: Let_def split: if_splits dest: set_takeWhileD)

lemma regex_match_digits:
  "regex_match word s = Some digits \<Longrightarrow> digits \<noteq> [] \<and> (\<forall>c \<in> set digits. is_digit c)"
proof (induction s)
  case Nil
  then show ?case by simp
next
  case (Cons c cs)
  show ?case
  proof (cases "match_here word (c # cs)")
    case None
    then show ?thesis using Cons by simp
  next
    case (Some ds)
    then have "ds = digits" using Cons.prems by simp
    then show ?thesis using Some match_here_digits by blast
  qed
qed

lemma foldl_decimal_nonneg:
  "\<forall>c \<in> set digits. is_digit c \<Longrightarrow> 0 \<le> n \<Longrightarrow>
   0 \<le> foldl (\<lambda>n c. 10 * n + (of_char c - 48)) (n::int) digits"
proof (induction digits arbitrary: n)
  case Nil
  then show ?case by simp
next
  case (Cons c cs)
  have "0 \<le> 10 * n + (of_char c - 48)"
    using Cons.prems by (simp add: is_digit_def)
  then show ?case using Cons by simp
qed

lemma toInt_nonneg: "\<forall>c \<in> set digits. is_digit c \<Longrightarrow> 0 \<le> toInt digits"
  by (simp add: toInt_def decimal_def foldl_decimal_nonneg)

lemma fragment_sound:
  "0 \<le> n \<Longrightarrow> fragmentForAction d (CHR ''V'') n = \<lparr>offset = 4, val = static_cast_char (n + 21)\<rparr>"
  "0 \<le> n \<Longrightarrow> fragmentForAction d (CHR ''M'') n = \<lparr>offset = 4, val = static_cast_char (n + 21)\<rparr>"
  by (simp_all add: fragmentForAction_def qMax_def)

lemma stop_sound_message:
  assumes "0 \<le> n" and "length (m_message d) = 6"
  shows "m_message (snd (stopAction (CHR ''V'') n d)) =
           (if m_message d ! 4 = static_cast_char (n + 21) then (m_message d)[4 := 0] else m_message d)"
  using assms
  by (simp add: stopAction_def fragment_sound fragment_bool_def m_message_setCurrentMessage_at
      s_pauseMessage_def)

lemma start_loop_message:
  assumes "0 \<le> n" and "length (m_message d) = 6"
  shows "m_message (snd (startAction (CHR ''M'') n d)) = (m_message d)[4 := static_cast_char (n + 21)]
       \<and> m_audioLoop (snd (startAction (CHR ''M'') n d))"
  using assms
  by (simp add: startAction_def fragment_sound fragment_bool_def m_message_setCurrentMessage_at
      setCurrentMessage_at_keeps)

text \<open>
  C6, as claimed: the sound state is set to the parsed positive integer. For \<open>V0Play\<close>
  the state becomes 0 and the signal carries 0; for \<open>V2147483648Play\<close>, whose number
  does not fit an \<open>int\<close>, the state becomes 0 as well.
\<close>

lemma zero_payloads:
  "regex_match ''Play'' (fromLatin1 ''V0Play'') = Some ''0''"
  "regex_match ''Play'' (fromLatin1 ''V2147483648Play'') = Some ''2147483648''"
  "toInt ''0'' = 0" "toInt ''2147483648'' = 0" "decimal ''2147483648'' = 2147483648"
  by (simp_all add: fromLatin1_def is_digit_def toInt_def decimal_def)

theorem sound_started_zero:
  "\<not> m_audioLoop initial
   \<and> regex_match ''Play'' (fromLatin1 ''V0Play'') = Some ''0''
   \<and> m_currentSound (onCharacteristicChanged (Characteristic s_notifyUuid 5) ''V0Play'' initial) = 0
   \<and> sounds (onCharacteristicChanged (Characteristic s_notifyUuid 5) ''V0Play'' initial)
        = [currentSoundChanged 0]
   \<and> regex_match ''Play'' (fromLatin1 ''V2147483648Play'') = Some ''2147483648''
   \<and> decimal ''2147483648'' = 2147483648
   \<and> m_currentSound
        (onCharacteristicChanged (Characteristic s_notifyUuid 5) ''V2147483648Play'' initial) = 0"
proof -
  have l: "\<not> m_audioLoop initial" and s: "sounds initial = []"
    by (simp_all add: initial_def sounds_def)
  have e: "onCharacteristicChanged (Characteristic s_notifyUuid 5) ''V0Play'' initial =
      emit (currentSoundChanged 0) (snd (stopAction (CHR ''V'') 0 (initial\<lparr>m_currentSound := 0\<rparr>)))"
    using l stopAction_keeps [of "CHR ''V''" 0 "initial\<lparr>m_currentSound := 0\<rparr>"]
    by (simp add: onCharacteristicChanged_def zero_payloads Let_def)
  have c0: "m_currentSound (onCharacteristicChanged (Characteristic s_notifyUuid 5) ''V0Play'' initial) = 0"
    using stopAction_keeps [of "CHR ''V''" 0 "initial\<lparr>m_currentSound := 0\<rparr>"]
    by (simp add: e emit_def)
  have s0: "sounds (onCharacteristicChanged (Characteristic s_notifyUuid 5) ''V0Play'' initial)
      = [currentSoundChanged 0]"
    using stopAction_keeps [of "CHR ''V''" 0 "initial\<lparr>m_currentSound := 0\<rparr>"] s
    by (simp add: e sounds_emit)
  have e2: "onCharacteristicChanged (Characteristic s_notifyUuid 5) ''V2147483648Play'' initial =
      emit (currentSoundChanged 0) (snd (stopAction (CHR ''V'') 0 (initial\<lparr>m_currentSound := 0\<rparr>)))"
    using l stopAction_keeps [of "CHR ''V''" 0 "initial\<lparr>m_currentSound := 0\<rparr>"]
    by (simp add: onCharacteristicChanged_def zero_payloads Let_def)
  have c2: "m_currentSound
      (onCharacteristicChanged (Characteristic s_notifyUuid 5) ''V2147483648Play'' initial) = 0"
    using c0 by (simp only: e e2)
  show ?thesis
    using l c0 s0 c2 zero_payloads(1,2,5) by blast
qed

text \<open>
  C6, amended: for a notification on the notify characteristic in which the session finds
  \<open>V<digits>Play\<close>, while loop mode is off and the buffer has its six bytes: the sound
  state becomes the integer n that \<open>toInt\<close> reads from the digits, which is the number
  they denote when that fits an \<open>int\<close> (positive unless the digits are all zeros) and 0
  when it does not; the session issues \<open>stopAction('V', n)\<close>, so that byte 4 returns to the
  pause message's byte when it held the encoding of n + 21 and the buffer is unchanged
  otherwise; and exactly one sound-changed signal is emitted, with value n.
\<close>

theorem sound_started_notification:
  assumes "uuid info = Some s_notifyUuid" and "\<not> m_audioLoop d"
    and "regex_match ''Play'' (fromLatin1 payload) = Some digits"
    and "length (m_message d) = 6"
  shows "onCharacteristicChanged info payload d =
           emit (currentSoundChanged (toInt digits))
             (snd (stopAction (CHR ''V'') (toInt digits) (d\<lparr>m_currentSound := toInt digits\<rparr>)))
       \<and> m_currentSound (onCharacteristicChanged info payload d) = toInt digits
       \<and> 0 \<le> toInt digits
       \<and> (0 < decimal digits \<and> decimal digits \<le> 2147483647 \<longrightarrow>
            toInt digits = decimal digits \<and> 0 < toInt digits)
       \<and> (decimal digits = 0 \<or> 2147483647 < decimal digits \<longrightarrow> toInt digits = 0)
       \<and> sounds (onCharacteristicChanged info payload d) =
            sounds d @ [currentSoundChanged (toInt digits)]
       \<and> (m_message d ! 4 = static_cast_char (toInt digits + 21) \<longrightarrow>
            m_message (onCharacteristicChanged info payload d) ! 4 = s_pauseMessage ! 4)
       \<and> (m_message d ! 4 \<noteq> static_cast_char (toInt digits + 21) \<longrightarrow>
            m_message (onCharacteristicChanged info payload d) = m_message d)"
proof -
  let ?n = "toInt digits"
  let ?d1 = "d\<lparr>m_currentSound := ?n\<rparr>"
  have n: "0 \<le> ?n"
    using regex_match_digits [OF assms(3)] by (simp add: toInt_nonneg)
  have eq: "onCharacteristicChanged info payload d =
      emit (currentSoundChanged ?n) (snd (stopAction (CHR ''V'') ?n ?d1))"
    using assms(1,2,3) stopAction_keeps [of "CHR ''V''" ?n ?d1]
    by (simp add: onCharacteristicChanged_def Let_def)
  have cur: "m_currentSound (onCharacteristicChanged info payload d) = ?n"
    using stopAction_keeps [of "CHR ''V''" ?n ?d1] by (simp add: eq emit_def)
  have snd: "sounds (onCharacteristicChanged info payload d) = sounds d @ [currentSoundChanged ?n]"
    using stopAction_keeps [of "CHR ''V''" ?n ?d1] by (simp add: eq sounds_emit)
  have msg: "m_message (onCharacteristicChanged info payload d) =
      (if m_message d ! 4 = static_cast_char (?n + 21) then (m_message d)[4 := 0] else m_message d)"
    using stop_sound_message [of ?n ?d1] n assms(4) by (simp add: eq emit_def)
  have pos: "0 < decimal digits \<and> decimal digits \<le> 2147483647 \<longrightarrow>
      ?n = decimal digits \<and> 0 < ?n"
    by (simp add: toInt_def)
  have zero: "decimal digits = 0 \<or> 2147483647 < decimal digits \<longrightarrow> ?n = 0"
    by (auto simp: toInt_def)
  show ?thesis
    using eq cur n pos zero snd msg assms(4) by (simp add: s_pauseMessage_def)
qed

lemma regex_match_no_V: "CHR ''V'' \<notin> set s \<Longrightarrow> regex_match word s = None"
  by (induction s) auto

lemma is_digit_not_V: "is_digit c \<Longrightarrow> c \<noteq> CHR ''V'' \<and> c \<noteq> CHR 0x00"
  by (auto simp: is_digit_def)

lemma digits_then_word:
  assumes "\<forall>c \<in> set digits. is_digit c" and "\<not> is_digit w"
  shows "takeWhile is_digit (digits @ w # ws) = digits"
    and "dropWhile is_digit (digits @ w # ws) = w # ws"
  using assms by (simp_all add: takeWhile_append2 dropWhile_append2)

lemma fromLatin1_no_NUL: "\<forall>c \<in> set s. c \<noteq> CHR 0x00 \<Longrightarrow> fromLatin1 s = s"
  unfolding fromLatin1_def by (induction s) simp_all

text \<open>
  A payload that is exactly \<open>V<digits>End\<close> or \<open>V<digits>Play\<close> is found as such, so
  the theorems about found patterns cover every payload of that form.
\<close>

lemma exact_End:
  assumes "digits \<noteq> []" and "\<forall>c \<in> set digits. is_digit c"
  shows "regex_match ''Play'' (fromLatin1 (''V'' @ digits @ ''End'')) = None
       \<and> regex_match ''End'' (fromLatin1 (''V'' @ digits @ ''End'')) = Some digits"
proof -
  have dz: "\<forall>c \<in> set digits. c \<noteq> CHR 0x00" and dv: "CHR ''V'' \<notin> set digits"
    using assms(2) is_digit_not_V by blast+
  have f: "fromLatin1 (''V'' @ digits @ ''End'') = CHR ''V'' # digits @ ''End''"
    using dz by (simp add: fromLatin1_no_NUL)
  have e: "\<not> is_digit (CHR ''E'')"
    by (simp add: is_digit_def)
  have t: "takeWhile is_digit (digits @ ''End'') = digits"
    and dr: "dropWhile is_digit (digits @ ''End'') = ''End''"
    using digits_then_word [OF assms(2) e] by simp_all
  have noV: "CHR ''V'' \<notin> set (digits @ ''End'')"
    using dv by simp
  have p: "regex_match ''Play'' (CHR ''V'' # digits @ ''End'') = None"
    using regex_match_no_V [OF noV] by (simp add: t dr)
  have q: "regex_match ''End'' (CHR ''V'' # digits @ ''End'') = Some digits"
    using assms(1) by (simp add: t dr)
  show ?thesis using p q by (simp only: f) 
qed

lemma exact_Play:
  assumes "digits \<noteq> []" and "\<forall>c \<in> set digits. is_digit c"
  shows "regex_match ''Play'' (fromLatin1 (''V'' @ digits @ ''Play'')) = Some digits"
proof -
  have dz: "\<forall>c \<in> set digits. c \<noteq> CHR 0x00"
    using assms(2) is_digit_not_V by blast
  have f: "fromLatin1 (''V'' @ digits @ ''Play'') = CHR ''V'' # digits @ ''Play''"
    using dz by (simp add: fromLatin1_no_NUL)
  have p: "\<not> is_digit (CHR ''P'')"
    by (simp add: is_digit_def)
  have t: "takeWhile is_digit (digits @ ''Play'') = digits"
    and dr: "dropWhile is_digit (digits @ ''Play'') = ''Play''"
    using digits_then_word [OF assms(2) p] by simp_all
  have "regex_match ''Play'' (CHR ''V'' # digits @ ''Play'') = Some digits"
    using assms(1) by (simp add: t dr)
  then show ?thesis by (simp only: f)
qed

text \<open>The fresh session after \<open>playSound(3)\<close> and after \<open>playLoop(3)\<close>.\<close>

lemma sound_3_started:
  "snd (startAction (CHR ''V'') 3 initial) =
     \<lparr>m_oldState = DisconnectedState, m_deviceInformation = None, m_robotControl = None,
      m_writeCharacteristic = InvalidCharacteristic, m_firmwareRevision = -1,
      m_currentSound = 0, m_pendingMessageCount = 0,
      m_message = [0x58, 0x11, 0x40, 0x40, 24, 0], m_audioLoop = False, m_emitter = False,
      effects = [currentMessageChanged [0x58, 0x11, 0x40, 0x40, 24, 0]]\<rparr>"
  by (simp add: startAction_def fragment_sound fragment_bool_def setCurrentMessage_at_def
      transmitMessage_def emit_def initial_def s_pauseMessage_def static_cast_char_def Let_def)

lemma loop_3_started:
  "snd (startAction (CHR ''M'') 3 initial) =
     \<lparr>m_oldState = DisconnectedState, m_deviceInformation = None, m_robotControl = None,
      m_writeCharacteristic = InvalidCharacteristic, m_firmwareRevision = -1,
      m_currentSound = 0, m_pendingMessageCount = 0,
      m_message = [0x58, 0x11, 0x40, 0x40, 24, 0], m_audioLoop = True, m_emitter = False,
      effects = [currentMessageChanged [0x58, 0x11, 0x40, 0x40, 24, 0]]\<rparr>"
  by (simp add: startAction_def fragment_sound fragment_bool_def setCurrentMessage_at_def
      transmitMessage_def emit_def initial_def s_pauseMessage_def static_cast_char_def Let_def)

lemma payload_examples:
  "regex_match ''Play'' (fromLatin1 ''V3Play'') = Some ''3''"
  "regex_match ''Play'' (fromLatin1 ''V3End'') = None"
  "regex_match ''End'' (fromLatin1 ''V3End'') = Some ''3''"
  "regex_match ''Play'' (fromLatin1 ''V235End'') = None"
  "regex_match ''End'' (fromLatin1 ''V235End'') = Some ''235''"
  "toInt ''3'' = 3" "toInt ''235'' = 235"
  by (simp_all add: fromLatin1_def is_digit_def toInt_def decimal_def)

theorem sound_started_notification_witness:
  "uuid (Characteristic s_notifyUuid 5) = Some s_notifyUuid
   \<and> \<not> m_audioLoop (snd (startAction (CHR ''V'') 3 initial))
   \<and> regex_match ''Play'' (fromLatin1 ''V3Play'') = Some ''3''
   \<and> length (m_message (snd (startAction (CHR ''V'') 3 initial))) = 6
   \<and> m_message (snd (startAction (CHR ''V'') 3 initial)) ! 4 = 24
   \<and> m_currentSound (onCharacteristicChanged (Characteristic s_notifyUuid 5) ''V3Play''
        (snd (startAction (CHR ''V'') 3 initial))) = 3
   \<and> m_message (onCharacteristicChanged (Characteristic s_notifyUuid 5) ''V3Play''
        (snd (startAction (CHR ''V'') 3 initial))) ! 4 = 0
   \<and> sounds (onCharacteristicChanged (Characteristic s_notifyUuid 5) ''V3Play''
        (snd (startAction (CHR ''V'') 3 initial))) = [currentSoundChanged 3]"
proof -
  define d where "d = snd (startAction (CHR ''V'') 3 initial)"
  have h1: "uuid (Characteristic s_notifyUuid 5) = Some s_notifyUuid" by simp
  have h2: "\<not> m_audioLoop d" by (simp add: d_def sound_3_started)
  have h3: "regex_match ''Play'' (fromLatin1 ''V3Play'') = Some ''3''" by (rule payload_examples)
  have h4: "length (m_message d) = 6" by (simp add: d_def sound_3_started)
  have b: "m_message d ! 4 = 24" "sounds d = []"
    by (simp_all add: d_def sound_3_started sounds_def)
  have "m_currentSound (onCharacteristicChanged (Characteristic s_notifyUuid 5) ''V3Play'' d)
        = toInt ''3''
    \<and> sounds (onCharacteristicChanged (Characteristic s_notifyUuid 5) ''V3Play'' d)
         = sounds d @ [currentSoundChanged (toInt ''3'')]
    \<and> (m_message d ! 4 = static_cast_char (toInt ''3'' + 21) \<longrightarrow>
         m_message (onCharacteristicChanged (Characteristic s_notifyUuid 5) ''V3Play'' d) ! 4
           = s_pauseMessage ! 4)"
    using sound_started_notification [OF h1 h2 h3 h4] by blast
  then have "m_currentSound (onCharacteristicChanged (Characteristic s_notifyUuid 5) ''V3Play'' d) = 3
    \<and> m_message (onCharacteristicChanged (Characteristic s_notifyUuid 5) ''V3Play'' d) ! 4 = 0
    \<and> sounds (onCharacteristicChanged (Characteristic s_notifyUuid 5) ''V3Play'' d)
         = [currentSoundChanged 3]"
    using b by (simp add: payload_examples static_cast_char_def s_pauseMessage_def)
  then show ?thesis
    using h1 h2 h3 h4 b unfolding d_def by blast
qed

text \<open>
  C7, as claimed: with loop mode on, \<open>V<digits>End\<close> for sound n makes byte 4 encode
  n + 21 again. For \<open>V235End\<close>, after \<open>playLoop(3)\<close>, byte 4 becomes 0, the idle value:
  235 + 21 is 256, whose low eight bits are 0.
\<close>

theorem loop_end_235_idles:
  "m_audioLoop (snd (startAction (CHR ''M'') 3 initial))
   \<and> m_message (snd (startAction (CHR ''M'') 3 initial)) ! 4 = 24
   \<and> regex_match ''End'' (fromLatin1 ''V235End'') = Some ''235''
   \<and> toInt ''235'' = 235
   \<and> m_message (onCharacteristicChanged (Characteristic s_notifyUuid 5) ''V235End''
        (snd (startAction (CHR ''M'') 3 initial))) ! 4 = 0"
proof -
  define d where "d = snd (startAction (CHR ''M'') 3 initial)"
  have l: "m_audioLoop d" and b: "m_message d ! 4 = 24" and len: "length (m_message d) = 6"
    by (simp_all add: d_def loop_3_started)
  have f: "fragmentForAction (d\<lparr>m_currentSound := 235\<rparr>) (CHR ''M'') 235 = \<lparr>offset = 4, val = 0\<rparr>"
    by (simp add: fragment_sound static_cast_char_def)
  have "onCharacteristicChanged (Characteristic s_notifyUuid 5) ''V235End'' d =
      emit (currentSoundChanged 235) (snd (startAction (CHR ''M'') 235 (d\<lparr>m_currentSound := 235\<rparr>)))"
    using l startAction_keeps [of "CHR ''M''" 235 "d\<lparr>m_currentSound := 235\<rparr>"]
    by (simp add: onCharacteristicChanged_def payload_examples Let_def)
  moreover have "m_message (snd (startAction (CHR ''M'') 235 (d\<lparr>m_currentSound := 235\<rparr>))) ! 4 = 0"
    using len by (simp add: startAction_def f fragment_bool_def m_message_setCurrentMessage_at)
  ultimately have "m_message (onCharacteristicChanged (Characteristic s_notifyUuid 5) ''V235End'' d) ! 4 = 0"
    by (simp add: emit_def)
  then show ?thesis
    using l b payload_examples(5,7) unfolding d_def by blast
qed

text \<open>
  C7, amended: for a notification on the notify characteristic in which the session finds
  \<open>V<digits>End\<close> (and no \<open>V<digits>Play\<close>, which it looks for first), with n the
  integer read from the digits: when loop mode is on the session issues
  \<open>startAction('M', n)\<close>, so that byte 4 holds the low eight bits of n + 21, which is
  n + 21 itself for n up to 234; when loop mode is off the sound state becomes -n and the
  session issues \<open>stopAction('V', n)\<close>; either way exactly one sound-changed signal is
  emitted, carrying the new sound state.
\<close>

theorem sound_ended_notification:
  assumes "uuid info = Some s_notifyUuid"
    and "regex_match ''Play'' (fromLatin1 payload) = None"
    and "regex_match ''End'' (fromLatin1 payload) = Some digits"
    and "length (m_message d) = 6"
  shows "0 \<le> toInt digits
       \<and> (m_audioLoop d \<longrightarrow>
            onCharacteristicChanged info payload d =
              emit (currentSoundChanged (toInt digits))
                (snd (startAction (CHR ''M'') (toInt digits) (d\<lparr>m_currentSound := toInt digits\<rparr>)))
            \<and> m_currentSound (onCharacteristicChanged info payload d) = toInt digits
            \<and> m_audioLoop (onCharacteristicChanged info payload d)
            \<and> uint (m_message (onCharacteristicChanged info payload d) ! 4)
                 = (toInt digits + 21) mod 256
            \<and> (toInt digits \<le> 234 \<longrightarrow>
                 uint (m_message (onCharacteristicChanged info payload d) ! 4) = toInt digits + 21)
            \<and> sounds (onCharacteristicChanged info payload d) =
                 sounds d @ [currentSoundChanged (toInt digits)])
       \<and> (\<not> m_audioLoop d \<longrightarrow>
            onCharacteristicChanged info payload d =
              emit (currentSoundChanged (- toInt digits))
                (snd (stopAction (CHR ''V'') (toInt digits) (d\<lparr>m_currentSound := - toInt digits\<rparr>)))
            \<and> m_currentSound (onCharacteristicChanged info payload d) = - toInt digits
            \<and> sounds (onCharacteristicChanged info payload d) =
                 sounds d @ [currentSoundChanged (- toInt digits)])"
proof -
  let ?n = "toInt digits"
  let ?d' = "onCharacteristicChanged info payload d"
  have n: "0 \<le> ?n"
    using regex_match_digits [OF assms(3)] by (simp add: toInt_nonneg)
  have on: "m_audioLoop d \<longrightarrow>
      ?d' = emit (currentSoundChanged ?n) (snd (startAction (CHR ''M'') ?n (d\<lparr>m_currentSound := ?n\<rparr>)))
      \<and> m_currentSound ?d' = ?n \<and> m_audioLoop ?d'
      \<and> uint (m_message ?d' ! 4) = (?n + 21) mod 256
      \<and> (?n \<le> 234 \<longrightarrow> uint (m_message ?d' ! 4) = ?n + 21)
      \<and> sounds ?d' = sounds d @ [currentSoundChanged ?n]"
  proof
    assume loop: "m_audioLoop d"
    let ?d1 = "d\<lparr>m_currentSound := ?n\<rparr>"
    have eq: "?d' = emit (currentSoundChanged ?n) (snd (startAction (CHR ''M'') ?n ?d1))"
      using assms(1,2,3) loop startAction_keeps [of "CHR ''M''" ?n ?d1]
      by (simp add: onCharacteristicChanged_def Let_def)
    have cur: "m_currentSound ?d' = ?n"
      using startAction_keeps [of "CHR ''M''" ?n ?d1] by (simp add: eq emit_def)
    have m: "m_message ?d' = (m_message d)[4 := static_cast_char (?n + 21)]" and l: "m_audioLoop ?d'"
      using start_loop_message [of ?n ?d1] n assms(4) by (simp_all add: eq emit_def)
    have u: "uint (m_message ?d' ! 4) = (?n + 21) mod 256"
      using assms(4) by (simp add: m uint_static_cast_char)
    have small: "?n \<le> 234 \<longrightarrow> uint (m_message ?d' ! 4) = ?n + 21"
      using n by (simp add: u)
    have s: "sounds ?d' = sounds d @ [currentSoundChanged ?n]"
      using startAction_keeps [of "CHR ''M''" ?n ?d1] by (simp add: eq sounds_emit)
    show "?d' = emit (currentSoundChanged ?n) (snd (startAction (CHR ''M'') ?n ?d1))
      \<and> m_currentSound ?d' = ?n \<and> m_audioLoop ?d'
      \<and> uint (m_message ?d' ! 4) = (?n + 21) mod 256
      \<and> (?n \<le> 234 \<longrightarrow> uint (m_message ?d' ! 4) = ?n + 21)
      \<and> sounds ?d' = sounds d @ [currentSoundChanged ?n]"
      using eq cur l u small s by blast
  qed
  have off: "\<not> m_audioLoop d \<longrightarrow>
      ?d' = emit (currentSoundChanged (- ?n))
              (snd (stopAction (CHR ''V'') ?n (d\<lparr>m_currentSound := - ?n\<rparr>)))
      \<and> m_currentSound ?d' = - ?n
      \<and> sounds ?d' = sounds d @ [currentSoundChanged (- ?n)]"
  proof
    assume noloop: "\<not> m_audioLoop d"
    let ?d3 = "d\<lparr>m_currentSound := - ?n\<rparr>"
    have eq: "?d' = emit (currentSoundChanged (- ?n)) (snd (stopAction (CHR ''V'') ?n ?d3))"
      using assms(1,2,3) noloop stopAction_keeps [of "CHR ''V''" ?n ?d3]
      by (simp add: onCharacteristicChanged_def Let_def)
    have cur: "m_currentSound ?d' = - ?n"
      using stopAction_keeps [of "CHR ''V''" ?n ?d3] by (simp add: eq emit_def)
    have s: "sounds ?d' = sounds d @ [currentSoundChanged (- ?n)]"
      using stopAction_keeps [of "CHR ''V''" ?n ?d3] by (simp add: eq sounds_emit)
    show "?d' = emit (currentSoundChanged (- ?n)) (snd (stopAction (CHR ''V'') ?n ?d3))
      \<and> m_currentSound ?d' = - ?n
      \<and> sounds ?d' = sounds d @ [currentSoundChanged (- ?n)]"
      using eq cur s by blast
  qed
  show ?thesis using n on off by blast
qed

theorem sound_ended_notification_witness:
  "uuid (Characteristic s_notifyUuid 5) = Some s_notifyUuid
   \<and> regex_match ''Play'' (fromLatin1 ''V3End'') = None
   \<and> regex_match ''End'' (fromLatin1 ''V3End'') = Some ''3''
   \<and> length (m_message (snd (startAction (CHR ''M'') 3 initial))) = 6
   \<and> m_audioLoop (snd (startAction (CHR ''M'') 3 initial))
   \<and> uint (m_message (onCharacteristicChanged (Characteristic s_notifyUuid 5) ''V3End''
        (snd (startAction (CHR ''M'') 3 initial))) ! 4) = 3 + 21
   \<and> length (m_message initial) = 6
   \<and> \<not> m_audioLoop initial
   \<and> m_currentSound (onCharacteristicChanged (Characteristic s_notifyUuid 5) ''V3End'' initial) = -3
   \<and> sounds (onCharacteristicChanged (Characteristic s_notifyUuid 5) ''V3End'' initial)
        = [currentSoundChanged (-3)]"
proof -
  define d where "d = snd (startAction (CHR ''M'') 3 initial)"
  have h1: "uuid (Characteristic s_notifyUuid 5) = Some s_notifyUuid" by simp
  have h2: "regex_match ''Play'' (fromLatin1 ''V3End'') = None" by (rule payload_examples)
  have h3: "regex_match ''End'' (fromLatin1 ''V3End'') = Some ''3''" by (rule payload_examples)
  have h4: "length (m_message d) = 6" by (simp add: d_def loop_3_started)
  have h5: "length (m_message initial) = 6" by (simp add: initial_def s_pauseMessage_def)
  have l: "m_audioLoop d"
    by (simp add: d_def loop_3_started)
  have i: "\<not> m_audioLoop initial" "sounds initial = []"
    by (simp_all add: initial_def sounds_def)
  have "uint (m_message (onCharacteristicChanged (Characteristic s_notifyUuid 5) ''V3End'' d) ! 4)
      = (toInt ''3'' + 21) mod 256"
    using l sound_ended_notification [OF h1 h2 h3 h4] by blast
  then have on: "uint (m_message (onCharacteristicChanged (Characteristic s_notifyUuid 5) ''V3End'' d) ! 4)
      = 3 + 21"
    by (simp add: payload_examples)
  have "m_currentSound (onCharacteristicChanged (Characteristic s_notifyUuid 5) ''V3End'' initial)
        = - toInt ''3''
      \<and> sounds (onCharacteristicChanged (Characteristic s_notifyUuid 5) ''V3End'' initial)
        = sounds initial @ [currentSoundChanged (- toInt ''3'')]"
    using i(1) sound_ended_notification [OF h1 h2 h3 h5] by blast
  then have off: "m_currentSound (onCharacteristicChanged (Characteristic s_notifyUuid 5) ''V3End'' initial) = -3
      \<and> sounds (onCharacteristicChanged (Characteristic s_notifyUuid 5) ''V3End'' initial)
        = [currentSoundChanged (-3)]"
    by (simp add: payload_examples i(2))
  show ?thesis
    using h1 h2 h3 h4 h5 l i on off unfolding d_def by blast
qed

end
